theory Spec2Isabelle
  imports Complex_Main "HOL-Library.Char_ord" "HOL-Library.List_Lexorder" "HOL-Library.AList"
begin

section \<open>Python values, errors and string helpers\<close>

text \<open>
  The backend is Python. A parsed Swagger/OpenAPI document is a tree of dictionaries, lists
  and scalars; it is modelled by the datatype \<open>json\<close>. A dictionary is an association list
  in insertion order (the order Python iterates in); \<open>map_of\<close> is the lookup. Strings are
  \<open>string\<close>, read as sequences of code points 0..255. Floating-point leaves of a document
  are not modelled (no operation below computes with them).

  Every exception the modelled code can raise is a value of \<open>error\<close>; a computation that
  may raise returns \<open>error + 'a\<close> with \<open>Inl\<close> for the exception.
\<close>

datatype json =
    JNull
  | JBool bool
  | JInt int
  | JStr string
  | JList "json list"
  | JDict "(string \<times> json) list"

datatype error =
    KeyError string
  | AttributeError
  | TypeError
  | ValueError string
  | IndexError
  | UnicodeDecodeError
  | OSError
  | Timeout

definition bindE :: "error + 'a \<Rightarrow> ('a \<Rightarrow> error + 'b) \<Rightarrow> error + 'b" where
  "bindE m f = (case m of Inl e \<Rightarrow> Inl e | Inr x \<Rightarrow> f x)"

text \<open>A \<open>for\<close> loop whose body may raise: it stops at the first exception.\<close>

fun mapE :: "('a \<Rightarrow> error + 'b) \<Rightarrow> 'a list \<Rightarrow> error + 'b list" where
  "mapE f [] = Inr []"
| "mapE f (x # xs) =
     (case f x of
        Inl e \<Rightarrow> Inl e
      | Inr y \<Rightarrow> (case mapE f xs of Inl e \<Rightarrow> Inl e | Inr ys \<Rightarrow> Inr (y # ys)))"

fun foldE :: "('a \<Rightarrow> 's \<Rightarrow> error + 's) \<Rightarrow> 'a list \<Rightarrow> 's \<Rightarrow> error + 's" where
  "foldE f [] s = Inr s"
| "foldE f (x # xs) s = (case f x s of Inl e \<Rightarrow> Inl e | Inr s' \<Rightarrow> foldE f xs s')"

text \<open>\<open>d.get(k)\<close>, \<open>d.get(k, default)\<close>, \<open>d.items()\<close>, \<open>d.keys()\<close>: only a dictionary
  has these methods, any other value raises AttributeError.\<close>

definition py_get_default :: "json \<Rightarrow> string \<Rightarrow> json \<Rightarrow> error + json" where
  "py_get_default d k dflt =
     (case d of
        JDict kvs \<Rightarrow> Inr (case map_of kvs k of None \<Rightarrow> dflt | Some v \<Rightarrow> v)
      | _ \<Rightarrow> Inl AttributeError)"

definition py_get :: "json \<Rightarrow> string \<Rightarrow> error + json" where
  "py_get d k = py_get_default d k JNull"

definition py_items :: "json \<Rightarrow> error + (string \<times> json) list" where
  "py_items d = (case d of JDict kvs \<Rightarrow> Inr kvs | _ \<Rightarrow> Inl AttributeError)"

definition py_keys :: "json \<Rightarrow> error + string list" where
  "py_keys d = (case d of JDict kvs \<Rightarrow> Inr (map fst kvs) | _ \<Rightarrow> Inl AttributeError)"

text \<open>\<open>for x in v\<close>: a list yields its elements, a dictionary its keys, a string its
  characters; None, booleans and numbers are not iterable.\<close>

definition py_iter :: "json \<Rightarrow> error + json list" where
  "py_iter v =
     (case v of
        JList xs \<Rightarrow> Inr xs
      | JDict kvs \<Rightarrow> Inr (map (\<lambda>kv. JStr (fst kv)) kvs)
      | JStr s \<Rightarrow> Inr (map (\<lambda>c. JStr [c]) s)
      | _ \<Rightarrow> Inl TypeError)"

fun starts_with :: "string \<Rightarrow> string \<Rightarrow> bool" where
  "starts_with [] s = True"
| "starts_with (p # ps) [] = False"
| "starts_with (p # ps) (c # cs) = (p = c \<and> starts_with ps cs)"

fun contains_substr :: "string \<Rightarrow> string \<Rightarrow> bool" where
  "contains_substr p [] = (p = [])"
| "contains_substr p (c # cs) = (starts_with p (c # cs) \<or> contains_substr p cs)"

text \<open>\<open>k in v\<close> for a string \<open>k\<close>: key test on a dictionary, element test on a list,
  substring test on a string, TypeError otherwise.\<close>

definition py_contains :: "string \<Rightarrow> json \<Rightarrow> error + bool" where
  "py_contains k v =
     (case v of
        JDict kvs \<Rightarrow> Inr (k \<in> set (map fst kvs))
      | JList xs \<Rightarrow> Inr (JStr k \<in> set xs)
      | JStr s \<Rightarrow> Inr (contains_substr k s)
      | _ \<Rightarrow> Inl TypeError)"

text \<open>\<open>v[k]\<close> for a string \<open>k\<close>: KeyError on a dictionary without the key, TypeError on
  every other value.\<close>

definition py_getitem :: "json \<Rightarrow> string \<Rightarrow> error + json" where
  "py_getitem v k =
     (case v of
        JDict kvs \<Rightarrow> (case map_of kvs k of None \<Rightarrow> Inl (KeyError k) | Some x \<Rightarrow> Inr x)
      | _ \<Rightarrow> Inl TypeError)"

fun py_truthy :: "json \<Rightarrow> bool" where
  "py_truthy JNull = False"
| "py_truthy (JBool b) = b"
| "py_truthy (JInt i) = (i \<noteq> 0)"
| "py_truthy (JStr s) = (s \<noteq> [])"
| "py_truthy (JList xs) = (xs \<noteq> [])"
| "py_truthy (JDict kvs) = (kvs \<noteq> [])"

text \<open>\<open>s.lstrip(chars)\<close> removes every leading character that occurs in \<open>chars\<close>;
  \<open>s.split(sep)\<close> with a one-character separator always returns at least one piece.\<close>

definition py_lstrip :: "string \<Rightarrow> string \<Rightarrow> string" where
  "py_lstrip chars s = dropWhile (\<lambda>c. c \<in> set chars) s"

fun py_split :: "char \<Rightarrow> string \<Rightarrow> string list" where
  "py_split sep [] = [[]]"
| "py_split sep (c # cs) =
     (if c = sep then [] # py_split sep cs
      else (case py_split sep cs of
              [] \<Rightarrow> [[c]]
            | w # ws \<Rightarrow> (c # w) # ws))"

definition is_space :: "char \<Rightarrow> bool" where
  "is_space c = ((of_char c :: nat) \<in> {9, 10, 11, 12, 13, 28, 29, 30, 31, 32, 133, 160})"

definition py_strip :: "string \<Rightarrow> string" where
  "py_strip s = rev (dropWhile is_space (rev (dropWhile is_space s)))"

definition lower_char :: "char \<Rightarrow> char" where
  "lower_char c =
     (let n = (of_char c :: nat)
      in if (65 \<le> n \<and> n \<le> 90) \<or> (192 \<le> n \<and> n \<le> 222 \<and> n \<noteq> 215)
         then char_of (n + 32) else c)"

definition py_lower :: "string \<Rightarrow> string" where
  "py_lower s = map lower_char s"

text \<open>\<open>upper\<close> is only ever applied to one of the five lower-case method names, so the
  three code points below 256 whose upper-case form lies above 255 do not arise.\<close>

definition upper_char :: "char \<Rightarrow> char" where
  "upper_char c =
     (let n = (of_char c :: nat)
      in if (97 \<le> n \<and> n \<le> 122) \<or> (224 \<le> n \<and> n \<le> 254 \<and> n \<noteq> 247)
         then char_of (n - 32) else c)"

definition py_upper :: "string \<Rightarrow> string" where
  "py_upper s = map upper_char s"

definition py_replace :: "char \<Rightarrow> char \<Rightarrow> string \<Rightarrow> string" where
  "py_replace old new s = map (\<lambda>c. if c = old then new else c) s"

text \<open>\<open>Path(p).name\<close> on a POSIX path: the last component, empty and \<open>.\<close> components
  being dropped.\<close>

definition path_name :: "string \<Rightarrow> string" where
  "path_name p =
     (let parts = filter (\<lambda>s. s \<noteq> [] \<and> s \<noteq> ''.'') (py_split (CHR ''/'') p)
      in if parts = [] then [] else last parts)"

text \<open>An f-string field \<open>{v}\<close> prints a string as it is and any other value by its
  \<open>repr\<close>. Python's \<open>repr\<close> of nested lists and dictionaries is a library function; it is
  a parameter of the model.\<close>

definition py_format :: "(json \<Rightarrow> string) \<Rightarrow> json \<Rightarrow> string" where
  "py_format repr v = (case v of JStr s \<Rightarrow> s | _ \<Rightarrow> repr v)"

section \<open>Chunk types and chunks\<close>

text \<open>
  \<open>ChunkType\<close> is a Python enumeration whose members are also strings
  (\<open>class ChunkType(str, Enum)\<close>). A member compares equal to its value
  (\<open>ChunkType.SWAGGER == "swagger"\<close>), so where a member is stored in a chunk the model
  stores its value. \<open>str(member)\<close>, however, is the enumeration's own \<open>__str__\<close>, the
  qualified name \<open>ChunkType.SWAGGER\<close>; \<open>ChunkType.values()\<close> returns the list of those.
\<close>

datatype ChunkType =
    SWAGGER
  | POSTMAN
  | TEXT
  | ENDPOINT_DESCRIPTION
  | PARAMETER
  | REQUEST_BODY_SCHEMA
  | RESPONSE_SCHEMA
  | ENUM_TEST_CASE
  | BOOLEAN_FLAG_TEST_CASE
  | ERROR_CODE_CASE

fun ChunkType_value :: "ChunkType \<Rightarrow> string" where
  "ChunkType_value SWAGGER = ''swagger''"
| "ChunkType_value POSTMAN = ''postman''"
| "ChunkType_value TEXT = ''free_text''"
| "ChunkType_value ENDPOINT_DESCRIPTION = ''endpoint_description''"
| "ChunkType_value PARAMETER = ''parameter''"
| "ChunkType_value REQUEST_BODY_SCHEMA = ''request_body_schema''"
| "ChunkType_value RESPONSE_SCHEMA = ''response_schema''"
| "ChunkType_value ENUM_TEST_CASE = ''enum_test_case''"
| "ChunkType_value BOOLEAN_FLAG_TEST_CASE = ''boolean_flag_test_case''"
| "ChunkType_value ERROR_CODE_CASE = ''error_code_case''"

fun ChunkType_name :: "ChunkType \<Rightarrow> string" where
  "ChunkType_name SWAGGER = ''SWAGGER''"
| "ChunkType_name POSTMAN = ''POSTMAN''"
| "ChunkType_name TEXT = ''TEXT''"
| "ChunkType_name ENDPOINT_DESCRIPTION = ''ENDPOINT_DESCRIPTION''"
| "ChunkType_name PARAMETER = ''PARAMETER''"
| "ChunkType_name REQUEST_BODY_SCHEMA = ''REQUEST_BODY_SCHEMA''"
| "ChunkType_name RESPONSE_SCHEMA = ''RESPONSE_SCHEMA''"
| "ChunkType_name ENUM_TEST_CASE = ''ENUM_TEST_CASE''"
| "ChunkType_name BOOLEAN_FLAG_TEST_CASE = ''BOOLEAN_FLAG_TEST_CASE''"
| "ChunkType_name ERROR_CODE_CASE = ''ERROR_CODE_CASE''"

definition ChunkType_members :: "ChunkType list" where
  "ChunkType_members =
     [SWAGGER, POSTMAN, TEXT, ENDPOINT_DESCRIPTION, PARAMETER, REQUEST_BODY_SCHEMA,
      RESPONSE_SCHEMA, ENUM_TEST_CASE, BOOLEAN_FLAG_TEST_CASE, ERROR_CODE_CASE]"

definition ChunkType_str :: "ChunkType \<Rightarrow> string" where
  "ChunkType_str m = ''ChunkType.'' @ ChunkType_name m"

definition ChunkType_values :: "string list" where
  "ChunkType_values = map ChunkType_str ChunkType_members"

definition METADATA_FIELD_ORIGIN :: string where
  "METADATA_FIELD_ORIGIN = ''chunk_origin''"

definition METADATA_FIELD_FILENAME :: string where
  "METADATA_FIELD_FILENAME = ''source_file''"

definition METADATA_FIELD_TYPE :: string where
  "METADATA_FIELD_TYPE = ''chunk_type''"

definition METADATA_FIELD_HASH :: string where
  "METADATA_FIELD_HASH = ''hash_id''"

text \<open>
  A chunk is a dictionary with the keys \<open>id\<close>, \<open>type\<close>, \<open>text\<close>, \<open>metadata\<close> and, after
  embedding, \<open>embedding\<close>. A field is \<open>None\<close> when the dictionary has no such key;
  under a key that is there, \<open>id\<close>, \<open>type\<close> and \<open>text\<close> hold any value (\<open>Some JNull\<close> is
  the key bound to Python's \<open>None\<close>). An embedding vector is a list of floats that is only
  stored and compared, never computed with; its elements are modelled as reals.
\<close>

type_synonym vector = "real list"

record chunk =
  chunk_id :: "json option"
  chunk_type :: "json option"
  chunk_text :: "json option"
  chunk_metadata :: "(string \<times> json) list option"
  chunk_embedding :: "vector option"

section \<open>SwaggerChunker\<close>

record chunker =
  swagger :: json
  source_file :: string
  components :: json
  security_schemes :: json
  global_security :: json
  chunks :: "chunk list"

definition SwaggerChunker_init :: "json \<Rightarrow> string \<Rightarrow> error + chunker" where
  "SwaggerChunker_init sw file =
     bindE (py_get_default sw ''components'' (JDict [])) (\<lambda>c1.
     bindE (py_get_default c1 ''schemas'' (JDict [])) (\<lambda>schemas.
     bindE (py_get_default sw ''components'' (JDict [])) (\<lambda>c2.
     bindE (py_get_default c2 ''securitySchemes'' (JDict [])) (\<lambda>schemes.
     bindE (py_get_default sw ''security'' (JList [])) (\<lambda>sec.
       Inr \<lparr> swagger = sw, source_file = path_name file, components = schemas,
             security_schemes = schemes, global_security = sec, chunks = [] \<rparr>)))))"

text \<open>\<open>_resolve_ref\<close>: the loop over the segments of the ref. A segment whose lookup
  gives \<open>None\<close> (absent key, or a key bound to null) raises KeyError with the ref in the
  message; \<open>.get\<close> on a value that is not a dictionary raises AttributeError.\<close>

fun resolve_walk :: "string \<Rightarrow> json \<Rightarrow> string list \<Rightarrow> error + json" where
  "resolve_walk ref result [] = Inr result"
| "resolve_walk ref result (part # parts) =
     (case py_get result part of
        Inl e \<Rightarrow> Inl e
      | Inr r \<Rightarrow>
          if r = JNull then Inl (KeyError (''Unable to resolve $ref: '' @ ref))
          else resolve_walk ref r parts)"

definition ref_path :: "string \<Rightarrow> string list" where
  "ref_path ref = py_split (CHR ''/'') (py_lstrip ''#/'' ref)"

definition resolve_ref :: "chunker \<Rightarrow> string \<Rightarrow> error + json" where
  "resolve_ref self ref = resolve_walk ref (swagger self) (ref_path ref)"

text \<open>The argument of \<open>_resolve_ref\<close> is whatever the document holds under \<open>$ref\<close>;
  \<open>ref.lstrip\<close> exists on strings only.\<close>

definition resolve_ref_value :: "chunker \<Rightarrow> json \<Rightarrow> error + json" where
  "resolve_ref_value self v = (case v of JStr ref \<Rightarrow> resolve_ref self ref | _ \<Rightarrow> Inl AttributeError)"

text \<open>The SHA-256 hex digest of the UTF-8 encoding of a string is a library function and
  a parameter \<open>sha256\<close> of the model.\<close>

definition generate_chunk_id :: "(string \<Rightarrow> string) \<Rightarrow> string \<Rightarrow> string" where
  "generate_chunk_id sha256 base = take 16 (sha256 base)"

definition base_metadata :: "chunker \<Rightarrow> ChunkType \<Rightarrow> (string \<times> json) list" where
  "base_metadata self ct =
     [(METADATA_FIELD_TYPE, JStr (ChunkType_value ct)),
      (METADATA_FIELD_ORIGIN, JStr (ChunkType_value SWAGGER)),
      (METADATA_FIELD_FILENAME, JStr (source_file self))]"

definition http_methods :: "string list" where
  "http_methods = [''get'', ''post'', ''put'', ''delete'', ''patch'']"

fun methods_ops :: "string \<Rightarrow> (string \<times> json) list \<Rightarrow> (string \<times> string \<times> json) list" where
  "methods_ops path [] = []"
| "methods_ops path ((method, op) # rest) =
     (if py_lower method \<in> set http_methods
      then (py_lower method, path, op) # methods_ops path rest
      else methods_ops path rest)"

fun paths_ops :: "(string \<times> json) list \<Rightarrow> error + (string \<times> string \<times> json) list" where
  "paths_ops [] = Inr []"
| "paths_ops ((path, methods) # rest) =
     (case py_items methods of
        Inl e \<Rightarrow> Inl e
      | Inr ms \<Rightarrow>
          (case paths_ops rest of
             Inl e \<Rightarrow> Inl e
           | Inr ops \<Rightarrow> Inr (methods_ops path ms @ ops)))"

definition extract_endpoints :: "chunker \<Rightarrow> error + (string \<times> string \<times> json) list" where
  "extract_endpoints self =
     bindE (py_get_default (swagger self) ''paths'' (JDict [])) (\<lambda>paths.
     bindE (py_items paths) paths_ops)"

text \<open>\<open>if "$ref" in x: x = self._resolve_ref(x["$ref"])\<close>\<close>

definition deref :: "chunker \<Rightarrow> json \<Rightarrow> error + json" where
  "deref self x =
     bindE (py_contains ''$ref'' x) (\<lambda>has.
       if has then bindE (py_getitem x ''$ref'') (resolve_ref_value self) else Inr x)"

definition param_entry :: "chunker \<Rightarrow> json \<Rightarrow> error + json" where
  "param_entry self param0 =
     bindE (deref self param0) (\<lambda>param.
     bindE (py_get param ''name'') (\<lambda>name.
     bindE (py_get param ''in'') (\<lambda>loc.
     bindE (py_get_default param ''required'' (JBool False)) (\<lambda>required.
     bindE (py_get_default param ''schema'' (JDict [])) (\<lambda>schema.
     bindE (py_get_default schema ''type'' (JStr ''string'')) (\<lambda>ty.
     bindE (py_get_default param ''description'' (JStr [])) (\<lambda>description.
       Inr (JDict [(''name'', name), (''in'', loc), (''required'', required),
                   (''type'', ty), (''description'', description)]))))))))"

definition extract_parameters :: "chunker \<Rightarrow> json \<Rightarrow> error + json" where
  "extract_parameters self operation =
     bindE (py_get_default operation ''parameters'' (JList [])) (\<lambda>params.
     bindE (py_iter params) (\<lambda>ps.
     bindE (mapE (param_entry self) ps) (\<lambda>resolved. Inr (JList resolved))))"

fun request_body_loop :: "chunker \<Rightarrow> (string \<times> json) list \<Rightarrow> error + json" where
  "request_body_loop self [] = Inr JNull"
| "request_body_loop self ((content_type, media_obj) # rest) =
     (case py_get media_obj ''schema'' of
        Inl e \<Rightarrow> Inl e
      | Inr schema \<Rightarrow>
          if \<not> py_truthy schema then request_body_loop self rest
          else (case deref self schema of
                  Inl e \<Rightarrow> Inl e
                | Inr sch \<Rightarrow> Inr (JDict [(''content_type'', JStr content_type), (''schema'', sch)])))"

definition extract_request_body :: "chunker \<Rightarrow> json \<Rightarrow> error + json" where
  "extract_request_body self operation =
     bindE (py_get_default operation ''requestBody'' (JDict [])) (\<lambda>body.
     bindE (py_get_default body ''content'' (JDict [])) (\<lambda>content.
     bindE (py_items content) (request_body_loop self)))"

definition response_media ::
  "chunker \<Rightarrow> string \<Rightarrow> json \<Rightarrow> string \<times> json \<Rightarrow> (string \<times> json) list \<Rightarrow> error + (string \<times> json) list" where
  "response_media self status_code resp item output =
     bindE (py_get_default (snd item) ''schema'' (JDict [])) (\<lambda>schema0.
     bindE (deref self schema0) (\<lambda>schema.
     bindE (py_get_default resp ''description'' (JStr [])) (\<lambda>description.
       Inr (AList.update status_code
              (JDict [(''description'', description), (''schema'', schema)]) output))))"

definition response_status ::
  "chunker \<Rightarrow> string \<times> json \<Rightarrow> (string \<times> json) list \<Rightarrow> error + (string \<times> json) list" where
  "response_status self item output =
     bindE (py_get_default (snd item) ''content'' (JDict [])) (\<lambda>content.
     bindE (py_items content) (\<lambda>medias.
       foldE (response_media self (fst item) (snd item)) medias output))"

definition extract_responses :: "chunker \<Rightarrow> json \<Rightarrow> error + json" where
  "extract_responses self operation =
     bindE (py_get_default operation ''responses'' (JDict [])) (\<lambda>responses.
     bindE (py_items responses) (\<lambda>items.
     bindE (foldE (response_status self) items []) (\<lambda>output. Inr (JDict output))))"

definition extract_security :: "chunker \<Rightarrow> json \<Rightarrow> error + json" where
  "extract_security self operation =
     bindE (py_get_default operation ''security'' (global_security self)) (\<lambda>schemes.
     bindE (py_iter schemes) (\<lambda>ss.
     bindE (mapE py_keys ss) (\<lambda>keys. Inr (JList (map JStr (concat keys))))))"

text \<open>The body of the loop of \<open>extract_chunks\<close>, in two parts: the composite text
  \<open>base_text\<close>, and the chunk built from it.\<close>

definition operation_id_of :: "string \<Rightarrow> string \<Rightarrow> json \<Rightarrow> error + json" where
  "operation_id_of method path operation =
     py_get_default operation ''operationId''
       (JStr (method @ ''_'' @ py_replace (CHR ''/'') (CHR ''_'') path))"

definition base_text_of ::
  "(json \<Rightarrow> string) \<Rightarrow> chunker \<Rightarrow> string \<times> string \<times> json \<Rightarrow> error + string" where
  "base_text_of repr self ep =
     (case ep of (method, path, operation) \<Rightarrow>
        bindE (operation_id_of method path operation) (\<lambda>operation_id.
        bindE (py_get_default operation ''summary'' (JStr [])) (\<lambda>summary.
        bindE (extract_parameters self operation) (\<lambda>parameters.
        bindE (extract_request_body self operation) (\<lambda>request_body.
        bindE (extract_responses self operation) (\<lambda>responses.
        bindE (extract_security self operation) (\<lambda>security.
          Inr (py_upper method @ '' '' @ path @ [CHR 0x0A, CHR 0x0A] @ py_format repr summary
               @ [CHR 0x0A, CHR 0x0A] @ ''Parameters:'' @ [CHR 0x0A] @ py_format repr parameters
               @ [CHR 0x0A, CHR 0x0A]
               @ (if py_truthy request_body
                  then ''Request Body:'' @ [CHR 0x0A] @ py_format repr request_body
                       @ [CHR 0x0A, CHR 0x0A]
                  else [])
               @ ''Responses:'' @ [CHR 0x0A] @ py_format repr responses
               @ [CHR 0x0A, CHR 0x0A] @ ''Security: '' @ py_format repr security))))))))"

definition build_chunk ::
  "(json \<Rightarrow> string) \<Rightarrow> (string \<Rightarrow> string) \<Rightarrow> chunker \<Rightarrow> string \<times> string \<times> json \<Rightarrow> error + chunk" where
  "build_chunk repr sha256 self ep =
     (case ep of (method, path, operation) \<Rightarrow>
        bindE (operation_id_of method path operation) (\<lambda>operation_id.
        bindE (base_text_of repr self ep) (\<lambda>base_text.
          Inr \<lparr> chunk_id = Some (JStr (generate_chunk_id sha256 base_text)),
                chunk_type = Some (JStr (ChunkType_value SWAGGER)),
                chunk_text = Some (JStr (py_strip base_text)),
                chunk_metadata = Some (base_metadata self SWAGGER
                   @ [(''method'', JStr method), (''path'', JStr path),
                      (''operation_id'', operation_id)]),
                chunk_embedding = None \<rparr>)))"

text \<open>\<open>extract_chunks\<close> appends to \<open>self.chunks\<close> and returns that list; the chunker
  after the call is part of the result. An exception leaves the chunks appended so far.\<close>

fun extract_loop ::
  "(json \<Rightarrow> string) \<Rightarrow> (string \<Rightarrow> string) \<Rightarrow> chunker \<Rightarrow> (string \<times> string \<times> json) list
     \<Rightarrow> (error + chunk list) \<times> chunker" where
  "extract_loop repr sha256 self [] = (Inr (chunks self), self)"
| "extract_loop repr sha256 self (ep # eps) =
     (case build_chunk repr sha256 self ep of
        Inl e \<Rightarrow> (Inl e, self)
      | Inr c \<Rightarrow> extract_loop repr sha256 (self\<lparr>chunks := chunks self @ [c]\<rparr>) eps)"

definition extract_chunks ::
  "(json \<Rightarrow> string) \<Rightarrow> (string \<Rightarrow> string) \<Rightarrow> chunker \<Rightarrow> (error + chunk list) \<times> chunker" where
  "extract_chunks repr sha256 self =
     (case extract_endpoints self of
        Inl e \<Rightarrow> (Inl e, self)
      | Inr eps \<Rightarrow> extract_loop repr sha256 self eps)"

section \<open>EmbeddingCache\<close>

text \<open>
  \<open>json.dumps(..., sort_keys=True)\<close> with the default \<open>ensure_ascii\<close>: a string is
  written between double quotes, the quote and the backslash are escaped, the five control
  characters with a short escape use it, a character from space to tilde stands for itself,
  and every other character is written as a lower-case \<open>\u00xx\<close>. Cache metadata is a
  dictionary from strings to strings (the engine passes \<open>{"type": chunk["type"]}\<close>).
\<close>

definition hex_digit :: "nat \<Rightarrow> char" where
  "hex_digit d = (if d < 10 then char_of (48 + d) else char_of (87 + d))"

definition esc_char :: "char \<Rightarrow> string" where
  "esc_char c =
     (let n = (of_char c :: nat)
      in if n = 34 then [CHR 0x5C, CHR 0x22]
         else if n = 92 then [CHR 0x5C, CHR 0x5C]
         else if n = 10 then [CHR 0x5C, CHR ''n'']
         else if n = 13 then [CHR 0x5C, CHR ''r'']
         else if n = 9 then [CHR 0x5C, CHR ''t'']
         else if n = 8 then [CHR 0x5C, CHR ''b'']
         else if n = 12 then [CHR 0x5C, CHR ''f'']
         else if 32 \<le> n \<and> n \<le> 126 then [c]
         else [CHR 0x5C, CHR ''u'', CHR ''0'', CHR ''0'', hex_digit (n div 16), hex_digit (n mod 16)])"

definition json_string :: "string \<Rightarrow> string" where
  "json_string s = [CHR 0x22] @ concat (map esc_char s) @ [CHR 0x22]"

fun py_join :: "string \<Rightarrow> string list \<Rightarrow> string" where
  "py_join sep [] = []"
| "py_join sep [x] = x"
| "py_join sep (x # y # ys) = x @ sep @ py_join sep (y # ys)"

definition json_dumps_dict :: "(string \<times> string) list \<Rightarrow> string" where
  "json_dumps_dict kvs =
     ''{'' @ py_join '', '' (map (\<lambda>kv. json_string (fst kv) @ '': '' @ json_string (snd kv))
                               (sort_key fst kvs)) @ ''}''"

text \<open>The string that \<open>_compute_hash\<close> hashes: the dump of
  \<open>{"text": text.strip(), "metadata": metadata or {}}\<close> with sorted keys.\<close>

definition hash_payload :: "string \<Rightarrow> (string \<times> string) list option \<Rightarrow> string" where
  "hash_payload text metadata =
     ''{'' @ json_string ''metadata'' @ '': ''
       @ json_dumps_dict (case metadata of None \<Rightarrow> [] | Some m \<Rightarrow> m)
       @ '', '' @ json_string ''text'' @ '': '' @ json_string (py_strip text) @ ''}''"

definition compute_hash ::
  "(string \<Rightarrow> string) \<Rightarrow> string \<Rightarrow> (string \<times> string) list option \<Rightarrow> string" where
  "compute_hash sha256 text metadata = sha256 (hash_payload text metadata)"

text \<open>
  The persisted index file, as \<open>_load_index\<close> can find it: bytes that are not UTF-8, text
  that is not JSON, or a JSON object from fingerprints to vectors. (A file holding
  well-formed JSON of another shape is outside this model.) Whether the file lock is
  acquired within its ten seconds, and whether the file can be opened, are inputs from the
  environment.

  A write of the index by \<open>_save_index\<close> has one of four outcomes, also an input from the
  environment: the file is written; the lock times out; \<open>open("w")\<close> raises OSError, the
  file staying as it was; or \<open>json.dump\<close> raises after the file was opened (OSError from
  the write, TypeError for a value it cannot serialise), which leaves a truncated file.
\<close>

datatype file_content =
    NotUtf8
  | NotJson
  | IndexJson "(string \<times> vector) list"

datatype save_outcome =
    Saved
  | LockTimedOut
  | OpenFailed
  | DumpFailed error

record cache_state =
  cache :: "(string \<times> vector) list"
  index_file :: "file_content option"

definition load_index :: "bool \<Rightarrow> bool \<Rightarrow> file_content option \<Rightarrow> error + (string \<times> vector) list" where
  "load_index lock_acquired can_open file =
     (case file of
        None \<Rightarrow> Inr []
      | Some content \<Rightarrow>
          if \<not> lock_acquired then Inr []
          else if \<not> can_open then Inl OSError
          else (case content of
                  NotUtf8 \<Rightarrow> Inl UnicodeDecodeError
                | NotJson \<Rightarrow> Inr []
                | IndexJson m \<Rightarrow> Inr m))"

definition EmbeddingCache_init :: "bool \<Rightarrow> bool \<Rightarrow> file_content option \<Rightarrow> error + cache_state" where
  "EmbeddingCache_init lock_acquired can_open file =
     bindE (load_index lock_acquired can_open file) (\<lambda>m.
       Inr \<lparr> cache = m, index_file = file \<rparr>)"

definition save_index :: "save_outcome \<Rightarrow> cache_state \<Rightarrow> (error + unit) \<times> cache_state" where
  "save_index outcome s =
     (case outcome of
        Saved \<Rightarrow> (Inr (), s\<lparr>index_file := Some (IndexJson (cache s))\<rparr>)
      | LockTimedOut \<Rightarrow> (Inl Timeout, s)
      | OpenFailed \<Rightarrow> (Inl OSError, s)
      | DumpFailed e \<Rightarrow> (Inl e, s\<lparr>index_file := Some NotJson\<rparr>))"

definition cache_get ::
  "(string \<Rightarrow> string) \<Rightarrow> cache_state \<Rightarrow> string \<Rightarrow> (string \<times> string) list option \<Rightarrow> vector option" where
  "cache_get sha256 s text metadata = map_of (cache s) (compute_hash sha256 text metadata)"

definition cache_add ::
  "(string \<Rightarrow> string) \<Rightarrow> save_outcome \<Rightarrow> string \<Rightarrow> vector \<Rightarrow> (string \<times> string) list option
     \<Rightarrow> cache_state \<Rightarrow> (error + unit) \<times> cache_state" where
  "cache_add sha256 outcome text embedding metadata s =
     save_index outcome
       (s\<lparr>cache := AList.update (compute_hash sha256 text metadata) embedding (cache s)\<rparr>)"

definition cache_clear :: "cache_state \<Rightarrow> cache_state" where
  "cache_clear s = \<lparr> cache = [], index_file = None \<rparr>"

definition cache_size :: "cache_state \<Rightarrow> nat" where
  "cache_size s = length (cache s)"

section \<open>EmbeddingEngine\<close>

text \<open>
  The first loop of \<open>embed_texts\<close>. A chunk is kept when it has the three keys, whatever
  they hold. \<open>chunk["type"] not in ChunkType.values()\<close> compares with the strings of that
  list, so a type that is not a string is never in it. After the loop the type of every
  kept chunk is a string.
\<close>

fun validated_chunks :: "chunk list \<Rightarrow> chunk list" where
  "validated_chunks [] = []"
| "validated_chunks (c # cs) =
     (case chunk_type c of
        None \<Rightarrow> validated_chunks cs
      | Some t \<Rightarrow>
          if chunk_id c = None \<or> chunk_text c = None then validated_chunks cs
          else (if t \<notin> set (map JStr ChunkType_values)
                then c\<lparr>chunk_type := Some (JStr (ChunkType_value TEXT))\<rparr>
                else c) # validated_chunks cs)"

text \<open>\<open>chunk["text"]\<close> raises KeyError on a chunk without the key; the cache then calls
  \<open>text.strip()\<close>, which only a string has: any other value raises AttributeError. The type
  goes into the cache metadata, a dictionary from strings to strings in this model; the
  chunks that reach \<open>type_of_chunk\<close> come out of the first loop, so its last case is
  never taken.\<close>

definition text_of_chunk :: "chunk \<Rightarrow> error + string" where
  "text_of_chunk c =
     (case chunk_text c of
        None \<Rightarrow> Inl (KeyError ''text'')
      | Some (JStr x) \<Rightarrow> Inr x
      | Some _ \<Rightarrow> Inl AttributeError)"

definition type_of_chunk :: "chunk \<Rightarrow> error + string" where
  "type_of_chunk c =
     (case chunk_type c of
        None \<Rightarrow> Inl (KeyError ''type'')
      | Some (JStr t) \<Rightarrow> Inr t
      | Some _ \<Rightarrow> Inl TypeError)"

text \<open>The second loop: a chunk whose cached vector is truthy (present and not empty) goes
  to \<open>enriched_chunks\<close> with the vector attached, every other chunk to \<open>to_embed\<close>.\<close>

definition split_step ::
  "(string \<Rightarrow> string) \<Rightarrow> cache_state \<Rightarrow> chunk \<Rightarrow> chunk list \<times> chunk list
     \<Rightarrow> error + chunk list \<times> chunk list" where
  "split_step sha256 s c acc =
     bindE (text_of_chunk c) (\<lambda>x.
     bindE (type_of_chunk c) (\<lambda>t.
       (case cache_get sha256 s x (Some [(''type'', t)]) of
          None \<Rightarrow> Inr (fst acc, snd acc @ [c])
        | Some cached \<Rightarrow>
            if cached \<noteq> [] then Inr (fst acc @ [c\<lparr>chunk_embedding := Some cached\<rparr>], snd acc)
            else Inr (fst acc, snd acc @ [c]))))"

text \<open>The third loop, over \<open>enumerate(to_embed)\<close>: \<open>embeddings[i]\<close> raises IndexError when
  the model returned too few vectors; \<open>cache.add\<close> raises when its write of the index does
  (\<open>save i\<close> is the outcome of the \<open>i\<close>-th write).\<close>

fun embed_loop ::
  "(string \<Rightarrow> string) \<Rightarrow> (nat \<Rightarrow> save_outcome) \<Rightarrow> vector list \<Rightarrow> nat \<Rightarrow> chunk list \<Rightarrow> chunk list
     \<Rightarrow> cache_state \<Rightarrow> (error + chunk list) \<times> cache_state" where
  "embed_loop sha256 save embeddings i [] enriched s = (Inr enriched, s)"
| "embed_loop sha256 save embeddings i (c # cs) enriched s =
     (if length embeddings \<le> i then (Inl IndexError, s)
      else (case text_of_chunk c of
              Inl e \<Rightarrow> (Inl e, s)
            | Inr x \<Rightarrow>
               (case type_of_chunk c of
                  Inl e \<Rightarrow> (Inl e, s)
                | Inr t \<Rightarrow>
                   (case cache_add sha256 (save i) x (embeddings ! i) (Some [(''type'', t)]) s of
                      (Inl e, s') \<Rightarrow> (Inl e, s')
                    | (Inr u, s') \<Rightarrow>
                        embed_loop sha256 save embeddings (Suc i) cs
                          (enriched @ [c\<lparr>chunk_embedding := Some (embeddings ! i)\<rparr>]) s'))))"

text \<open>\<open>embed_texts\<close>. The embedding model (\<open>self.model.encode\<close>) is the parameter
  \<open>encode\<close>; it may raise.\<close>

definition embed_texts ::
  "(string \<Rightarrow> string) \<Rightarrow> (string list \<Rightarrow> error + vector list) \<Rightarrow> (nat \<Rightarrow> save_outcome)
     \<Rightarrow> chunk list \<Rightarrow> cache_state \<Rightarrow> (error + chunk list) \<times> cache_state" where
  "embed_texts sha256 encode save chunks0 s =
     (case foldE (split_step sha256 s) (validated_chunks chunks0) ([], []) of
        Inl e \<Rightarrow> (Inl e, s)
      | Inr (enriched, to_embed) \<Rightarrow>
          if to_embed = [] then (Inr enriched, s)
          else (case mapE text_of_chunk to_embed of
                  Inl e \<Rightarrow> (Inl e, s)
                | Inr texts \<Rightarrow>
                   (case encode texts of
                      Inl e \<Rightarrow> (Inl e, s)
                    | Inr embeddings \<Rightarrow> embed_loop sha256 save embeddings 0 to_embed enriched s)))"

section \<open>VectorStore\<close>

datatype VectorStoreCollections =
    SWAGGER_EMBEDDINGS
  | POSTMAN_EMBEDDINGS
  | GENERIC_TEXT_EMBEDDINGS

fun collection_value :: "VectorStoreCollections \<Rightarrow> string" where
  "collection_value SWAGGER_EMBEDDINGS = ''swagger_embeddings''"
| "collection_value POSTMAN_EMBEDDINGS = ''postman_embeddings''"
| "collection_value GENERIC_TEXT_EMBEDDINGS = ''text_embeddings''"

text \<open>
  The store: the names in the handle cache \<open>self._collections\<close>, the collections of the
  database client with their records, and the number of \<open>uuid4()\<close> draws made so far
  (\<open>uuid4 k\<close> is the \<open>k\<close>-th identifier the generator yields). The database's own
  \<open>collection.add\<close> is the parameter \<open>chroma_add\<close>: from the four parallel lists of the
  call and the records of the collection to the new records, or an error.
\<close>

record collection_record =
  rec_id :: string
  rec_document :: string
  rec_embedding :: vector
  rec_metadata :: "(string \<times> string) list"

record vector_store =
  collections :: "string list"
  client :: "(string \<times> collection_record list) list"
  uuid_draws :: nat

type_synonym chroma_add_fn =
  "string list \<Rightarrow> vector list \<Rightarrow> (string \<times> string) list list \<Rightarrow> string list
     \<Rightarrow> collection_record list \<Rightarrow> error + collection_record list"

definition load_or_create_collection ::
  "VectorStoreCollections \<Rightarrow> vector_store \<Rightarrow> string \<times> vector_store" where
  "load_or_create_collection name st =
     (let name_str = collection_value name
      in if name_str \<notin> set (collections st)
         then (name_str,
               st\<lparr>collections := collections st @ [name_str],
                  client := (if name_str \<in> set (map fst (client st)) then client st
                             else client st @ [(name_str, [])])\<rparr>)
         else (name_str, st))"

text \<open>\<open>ids = ids or [str(uuid4()) for _ in documents]\<close>: \<open>None\<close> and the empty list are
  both falsy.\<close>

definition ids_given :: "string list option \<Rightarrow> bool" where
  "ids_given ids = (case ids of None \<Rightarrow> False | Some xs \<Rightarrow> xs \<noteq> [])"

definition effective_ids ::
  "(nat \<Rightarrow> string) \<Rightarrow> nat \<Rightarrow> string list \<Rightarrow> string list option \<Rightarrow> string list" where
  "effective_ids uuid4 drawn documents ids =
     (case ids of
        None \<Rightarrow> map (\<lambda>i. uuid4 (drawn + i)) [0..<length documents]
      | Some xs \<Rightarrow>
          if xs = [] then map (\<lambda>i. uuid4 (drawn + i)) [0..<length documents] else xs)"

text \<open>The metadata of document \<open>i\<close>: the four defaults, overridden and extended by the
  caller's entry \<open>metadatas[i]\<close> when there is one. The default of \<open>hash_id\<close> draws a
  \<open>uuid4()\<close> for every document, used or not.\<close>

definition base_meta_at :: "(string \<times> string) list list option \<Rightarrow> nat \<Rightarrow> (string \<times> string) list" where
  "base_meta_at metadatas i =
     (case metadatas of
        None \<Rightarrow> []
      | Some ms \<Rightarrow> if ms \<noteq> [] \<and> i < length ms then ms ! i else [])"

definition meta_get :: "(string \<times> string) list \<Rightarrow> string \<Rightarrow> string \<Rightarrow> string" where
  "meta_get m k dflt = (case map_of m k of None \<Rightarrow> dflt | Some v \<Rightarrow> v)"

definition enrich_metadata :: "(string \<times> string) list \<Rightarrow> string \<Rightarrow> (string \<times> string) list" where
  "enrich_metadata base_meta fresh =
     AList.updates (map fst base_meta) (map snd base_meta)
       [(METADATA_FIELD_TYPE, meta_get base_meta METADATA_FIELD_TYPE ''text''),
        (METADATA_FIELD_ORIGIN, meta_get base_meta METADATA_FIELD_ORIGIN ''unknown''),
        (METADATA_FIELD_FILENAME, meta_get base_meta METADATA_FIELD_FILENAME ''unknown''),
        (METADATA_FIELD_HASH, meta_get base_meta METADATA_FIELD_HASH fresh)]"

definition add_documents ::
  "(nat \<Rightarrow> string) \<Rightarrow> chroma_add_fn \<Rightarrow> VectorStoreCollections \<Rightarrow> string list \<Rightarrow> vector list
     \<Rightarrow> (string \<times> string) list list option \<Rightarrow> string list option
     \<Rightarrow> vector_store \<Rightarrow> (error + unit) \<times> vector_store" where
  "add_documents uuid4 chroma_add collection_name documents embeddings metadatas ids st =
     (if length documents \<noteq> length embeddings
      then (Inl (ValueError ''Mismatch: documents and embeddings count.''), st)
      else
        let ids1 = effective_ids uuid4 (uuid_draws st) documents ids;
            st1 = (if ids_given ids then st
                   else st\<lparr>uuid_draws := uuid_draws st + length documents\<rparr>)
        in if length ids1 \<noteq> length documents
           then (Inl (ValueError ''Mismatch: documents and IDs count.''), st1)
           else
             let enriched_metadatas =
                   map (\<lambda>i. enrich_metadata (base_meta_at metadatas i) (uuid4 (uuid_draws st1 + i)))
                       [0..<length documents];
                 st2 = st1\<lparr>uuid_draws := uuid_draws st1 + length documents\<rparr>;
                 loaded = load_or_create_collection collection_name st2;
                 st3 = snd loaded;
                 records = (case map_of (client st3) (fst loaded) of None \<Rightarrow> [] | Some rs \<Rightarrow> rs)
             in (case chroma_add documents embeddings enriched_metadatas ids1 records of
                   Inl e \<Rightarrow> (Inl e, st3)
                 | Inr records' \<Rightarrow>
                     (Inr (), st3\<lparr>client := AList.update (fst loaded) records' (client st3)\<rparr>)))"

section \<open>Example inputs\<close>

text \<open>
  Concrete inputs for the instances evaluated below. The identifier generator, the
  database's \<open>add\<close>, the digest and \<open>repr\<close> are parameters of the model and every theorem
  holds for all of them; the instances fix simple ones.
\<close>

definition example_store :: vector_store where
  "example_store = \<lparr> collections = [], client = [], uuid_draws = 0 \<rparr>"

definition example_uuid4 :: "nat \<Rightarrow> string" where
  "example_uuid4 k = ''uuid-'' @ replicate k (CHR ''i'')"

definition example_chroma_add :: chroma_add_fn where
  "example_chroma_add documents embeddings metadatas ids records =
     Inr (records @ map (\<lambda>i. \<lparr> rec_id = ids ! i, rec_document = documents ! i,
                               rec_embedding = embeddings ! i, rec_metadata = metadatas ! i \<rparr>)
                        [0..<length documents])"

definition example_doc :: json where
  "example_doc =
     JDict [(''components'',
             JDict [(''schemas'', JDict [(''User'', JDict [(''type'', JStr ''object'')])])])]"

definition example_sha256 :: "string \<Rightarrow> string" where
  "example_sha256 b = b"

definition example_repr :: "json \<Rightarrow> string" where
  "example_repr v = ''<repr>''"

text \<open>A document with one \<open>GET /users/{id}\<close> operation (and an \<open>OPTIONS\<close> entry, which
  extraction skips), and its extraction by a chunker constructed for it.\<close>

definition users_doc :: json where
  "users_doc =
     JDict [
       (''paths'', JDict [
          (''/users/{id}'', JDict [
             (''get'', JDict [
                (''summary'', JStr ''Get a user''),
                (''parameters'', JList [
                   JDict [(''name'', JStr ''id''), (''in'', JStr ''path''),
                          (''required'', JBool True),
                          (''schema'', JDict [(''type'', JStr ''string'')])]]),
                (''responses'', JDict [
                   (''200'', JDict [
                      (''description'', JStr ''OK''),
                      (''content'', JDict [
                         (''application/json'', JDict [
                            (''schema'', JDict [(''$ref'', JStr ''#/components/schemas/User'')])])])])])]),
             (''options'', JDict [])])]),
       (''components'', JDict [
          (''schemas'', JDict [(''User'', JDict [(''type'', JStr ''object'')])])])]"

definition users_chunks :: "error + chunk list" where
  "users_chunks =
     bindE (SwaggerChunker_init users_doc ''specs/users.yaml'')
       (\<lambda>self. fst (extract_chunks example_repr example_sha256 self))"


text \<open>The same document, with \<open>extract_chunks\<close> called a second time on the chunker of
  the first call.\<close>

definition users_chunks_second_call :: "error + chunk list" where
  "users_chunks_second_call =
     bindE (SwaggerChunker_init users_doc ''specs/users.yaml'')
       (\<lambda>self. fst (extract_chunks example_repr example_sha256
                       (snd (extract_chunks example_repr example_sha256 self))))"

definition example_encode :: "string list \<Rightarrow> error + vector list" where
  "example_encode texts = Inr (map (\<lambda>t. [real (length t)]) texts)"

definition example_save :: "nat \<Rightarrow> save_outcome" where
  "example_save k = Saved"

definition chunk_a :: chunk where
  "chunk_a = \<lparr> chunk_id = Some (JStr ''a''), chunk_type = Some (JStr ''free_text''),
               chunk_text = Some (JStr ''alpha''), chunk_metadata = None, chunk_embedding = None \<rparr>"

definition chunk_b :: chunk where
  "chunk_b = \<lparr> chunk_id = Some (JStr ''b''), chunk_type = Some (JStr ''free_text''),
               chunk_text = Some (JStr ''beta''), chunk_metadata = None, chunk_embedding = None \<rparr>"

text \<open>A chunk whose type is the qualified name of an enumeration member, not the value of
  any member.\<close>

definition chunk_q :: chunk where
  "chunk_q = \<lparr> chunk_id = Some (JStr ''q''), chunk_type = Some (JStr ''ChunkType.SWAGGER''),
               chunk_text = Some (JStr ''delta''), chunk_metadata = None, chunk_embedding = None \<rparr>"

text \<open>A cache that holds a vector for the text of \<open>chunk_b\<close> and nothing else.\<close>

definition example_cache :: cache_state where
  "example_cache =
     snd (cache_add example_sha256 Saved ''beta'' [1, 0] (Some [(''type'', ''free_text'')])
            \<lparr> cache = [], index_file = None \<rparr>)"

section \<open>Vocabulary of the statements\<close>

text \<open>\<open>cached_vector\<close> is what the cache holds for a chunk under its text and type, and
  \<open>is_cached\<close> the test \<open>if cached:\<close> of \<open>embed_texts\<close> seen from outside: the vector is
  there and not empty. \<open>text_str\<close> is the text of a chunk whose text is a string.\<close>

definition cached_vector :: "(string \<Rightarrow> string) \<Rightarrow> cache_state \<Rightarrow> chunk \<Rightarrow> vector option" where
  "cached_vector sha256 s c =
     (case text_of_chunk c of
        Inl e \<Rightarrow> None
      | Inr x \<Rightarrow>
          (case type_of_chunk c of
             Inl e \<Rightarrow> None
           | Inr t \<Rightarrow> cache_get sha256 s x (Some [(''type'', t)])))"

definition is_cached :: "(string \<Rightarrow> string) \<Rightarrow> cache_state \<Rightarrow> chunk \<Rightarrow> bool" where
  "is_cached sha256 s c =
     (case cached_vector sha256 s c of None \<Rightarrow> False | Some cached \<Rightarrow> cached \<noteq> [])"

definition text_str :: "chunk \<Rightarrow> string" where
  "text_str c = (case chunk_text c of Some (JStr x) \<Rightarrow> x | _ \<Rightarrow> [])"

text \<open>The store in which \<open>add_documents\<close> calls the database: its collection loaded, and
  the identifiers of the call drawn (\<open>k\<close> of them).\<close>

definition store_at_add :: "VectorStoreCollections \<Rightarrow> nat \<Rightarrow> vector_store \<Rightarrow> vector_store" where
  "store_at_add collection_name k st =
     snd (load_or_create_collection collection_name (st\<lparr>uuid_draws := uuid_draws st + k\<rparr>))"

definition records_at_add :: "VectorStoreCollections \<Rightarrow> vector_store \<Rightarrow> collection_record list" where
  "records_at_add collection_name st =
     (case map_of (client st) (collection_value collection_name) of None \<Rightarrow> [] | Some rs \<Rightarrow> rs)"


section \<open>Basic facts\<close>

lemma bindE_simps [simp]:
  "bindE (Inl e) f = Inl e"
  "bindE (Inr x) f = f x"
  by (simp_all add: bindE_def)

lemma bindE_eq_Inr: "bindE m f = Inr y \<longleftrightarrow> (\<exists>x. m = Inr x \<and> f x = Inr y)"
  by (cases m) simp_all

section \<open>VectorStore: contract checks of \<open>add_documents\<close>\<close>

text \<open>
  C4. When \<open>documents\<close> and \<open>embeddings\<close> differ in length, \<open>add_documents\<close> raises the
  ValueError of the first check and the store is exactly as before: no collection was
  created, loaded or written, and no identifier was drawn.
\<close>

theorem add_documents_length_mismatch:
  "length documents \<noteq> length embeddings \<Longrightarrow>
   add_documents uuid4 chroma_add collection_name documents embeddings metadatas ids st
     = (Inl (ValueError ''Mismatch: documents and embeddings count.''), st)"
  by (simp add: add_documents_def)

theorem add_documents_length_mismatch_witness:
  "add_documents example_uuid4 example_chroma_add SWAGGER_EMBEDDINGS
     [''a'', ''b'', ''c''] [[1], [2]] None None example_store
     = (Inl (ValueError ''Mismatch: documents and embeddings count.''), example_store)"
  using add_documents_length_mismatch
    [of "[''a'', ''b'', ''c'']" "[[1], [2]]" example_uuid4 example_chroma_add SWAGGER_EMBEDDINGS
        None None example_store]
  by simp

text \<open>
  C10. With \<open>documents\<close> and \<open>embeddings\<close> of equal length, a non-empty \<open>ids\<close> list of
  another length makes \<open>add_documents\<close> raise the ValueError of the second check with the
  store unchanged. With an empty \<open>ids\<close> list, as with none, \<open>add_documents\<close> draws one
  fresh identifier per document and hands these identifiers to the database's \<open>add\<close>,
  together with the documents, the embeddings and the enriched metadata (whose default
  \<open>hash_id\<close> values are the next draws); the outcome of the call is that of the
  database.
\<close>

theorem add_documents_ids_contract:
  "length documents = length embeddings \<Longrightarrow>
     (xs \<noteq> [] \<and> length xs \<noteq> length documents \<longrightarrow>
        add_documents uuid4 chroma_add collection_name documents embeddings metadatas (Some xs) st
          = (Inl (ValueError ''Mismatch: documents and IDs count.''), st))
   \<and> (\<forall>ids \<in> {None, Some []}.
        add_documents uuid4 chroma_add collection_name documents embeddings metadatas ids st
          = (case chroma_add documents embeddings
                   (map (\<lambda>i. enrich_metadata (base_meta_at metadatas i)
                                (uuid4 (uuid_draws st + length documents + i)))
                        [0..<length documents])
                   (map (\<lambda>i. uuid4 (uuid_draws st + i)) [0..<length documents])
                   (records_at_add collection_name
                      (store_at_add collection_name (2 * length documents) st)) of
               Inl e \<Rightarrow> (Inl e, store_at_add collection_name (2 * length documents) st)
             | Inr records' \<Rightarrow>
                 (Inr (),
                  (store_at_add collection_name (2 * length documents) st)
                    \<lparr>client := AList.update (collection_value collection_name) records'
                                (client (store_at_add collection_name (2 * length documents) st))\<rparr>)))"
  by (auto simp: add_documents_def effective_ids_def ids_given_def store_at_add_def
      records_at_add_def load_or_create_collection_def Let_def mult_2 add.assoc
      split: sum.splits)


theorem add_documents_ids_contract_witness:
  "add_documents example_uuid4 example_chroma_add SWAGGER_EMBEDDINGS
     [''a'', ''b''] [[1], [2]] None (Some [''only-one'']) example_store
     = (Inl (ValueError ''Mismatch: documents and IDs count.''), example_store)
   \<and> map rec_id
       (records_at_add SWAGGER_EMBEDDINGS
          (snd (add_documents example_uuid4 example_chroma_add SWAGGER_EMBEDDINGS
                  [''a'', ''b''] [[1], [2]] None (Some []) example_store)))
     = [''uuid-'', ''uuid-i'']"
proof -
  have l: "length [''a'', ''b''] = length [[1::real], [2]]" by simp
  note t = add_documents_ids_contract
    [OF l, of "[''only-one'']" example_uuid4 example_chroma_add SWAGGER_EMBEDDINGS None example_store]
  from t have 1: "add_documents example_uuid4 example_chroma_add SWAGGER_EMBEDDINGS
     [''a'', ''b''] [[1], [2]] None (Some [''only-one'']) example_store
     = (Inl (ValueError ''Mismatch: documents and IDs count.''), example_store)" by simp
  from t have 2: "add_documents example_uuid4 example_chroma_add SWAGGER_EMBEDDINGS
     [''a'', ''b''] [[1], [2]] None (Some []) example_store
     = (case example_chroma_add [''a'', ''b''] [[1], [2]]
                   (map (\<lambda>i. enrich_metadata (base_meta_at None i)
                                (example_uuid4 (uuid_draws example_store + length [''a'', ''b''] + i)))
                        [0..<length [''a'', ''b'']])
                   (map (\<lambda>i. example_uuid4 (uuid_draws example_store + i)) [0..<length [''a'', ''b'']])
                   (records_at_add SWAGGER_EMBEDDINGS
                      (store_at_add SWAGGER_EMBEDDINGS (2 * length [''a'', ''b'']) example_store)) of
               Inl e \<Rightarrow> (Inl e, store_at_add SWAGGER_EMBEDDINGS (2 * length [''a'', ''b'']) example_store)
             | Inr records' \<Rightarrow>
                 (Inr (),
                  (store_at_add SWAGGER_EMBEDDINGS (2 * length [''a'', ''b'']) example_store)
                    \<lparr>client := AList.update (collection_value SWAGGER_EMBEDDINGS) records'
                                (client (store_at_add SWAGGER_EMBEDDINGS (2 * length [''a'', ''b'']) example_store))\<rparr>))"
    by blast
  have 3: "map rec_id
       (records_at_add SWAGGER_EMBEDDINGS
          (snd (add_documents example_uuid4 example_chroma_add SWAGGER_EMBEDDINGS
                  [''a'', ''b''] [[1], [2]] None (Some []) example_store)))
     = [''uuid-'', ''uuid-i'']"
    unfolding 2
    by (simp add: example_chroma_add_def example_uuid4_def example_store_def store_at_add_def
        records_at_add_def load_or_create_collection_def Let_def upt_rec)
  from 1 3 show ?thesis by simp
qed

section \<open>EmbeddingCache: lookup after insertion, cold start\<close>

text \<open>
  C7. After \<open>add\<close> of a vector under a text and metadata, \<open>get\<close> with the same text and
  metadata returns that vector, and a second \<open>add\<close> of the same text, metadata and vector
  leaves \<open>size()\<close> as it was. Both hold whatever the outcome of the writes of the index
  file: the dictionary in memory is updated before the file is written.
\<close>

theorem cache_put_get_idempotent:
  "cache_get sha256 (snd (cache_add sha256 l1 text v md s)) text md = Some v
   \<and> cache_size (snd (cache_add sha256 l2 text v md (snd (cache_add sha256 l1 text v md s))))
       = cache_size (snd (cache_add sha256 l1 text v md s))"
  by (cases l1; cases l2)
     (simp_all add: cache_get_def cache_add_def save_index_def cache_size_def update_conv')

text \<open>
  C8. An index file whose bytes are not valid UTF-8 is a corrupted index on which the
  constructor does not start cold: the read inside \<open>json.load\<close> raises UnicodeDecodeError,
  which is neither of the two exceptions \<open>_load_index\<close> catches.
\<close>

theorem cache_init_not_utf8_raises:
  "EmbeddingCache_init True True (Some NotUtf8) = Inl UnicodeDecodeError"
  by (simp add: EmbeddingCache_init_def load_index_def bindE_def)

section \<open>SwaggerChunker: reference resolution\<close>

text \<open>
  C5. A ref whose path runs through a value that is not a dictionary (here the string under
  \<open>type\<close>) does not raise the KeyError that names the ref: \<open>.get\<close> on the string raises
  AttributeError.
\<close>

theorem resolve_ref_through_scalar:
  "bindE (SwaggerChunker_init example_doc ''specs/api.yaml'')
     (\<lambda>self. resolve_ref self ''#/components/schemas/User/type/format'') = Inl AttributeError"
  by (simp add: example_doc_def SwaggerChunker_init_def bindE_def py_get_default_def
      resolve_ref_def ref_path_def py_lstrip_def py_get_def)

section \<open>EmbeddingEngine: what \<open>embed_texts\<close> returns\<close>

lemma text_of_chunk_Inr: "text_of_chunk c = Inr x \<longleftrightarrow> chunk_text c = Some (JStr x)"
  by (simp add: text_of_chunk_def split: option.splits json.splits)

lemma type_of_chunk_Inr: "type_of_chunk c = Inr t \<longleftrightarrow> chunk_type c = Some (JStr t)"
  by (simp add: type_of_chunk_def split: option.splits json.splits)

lemma cached_vector_eq:
  "text_of_chunk c = Inr x \<Longrightarrow> type_of_chunk c = Inr t \<Longrightarrow>
   cached_vector sha256 s c = cache_get sha256 s x (Some [(''type'', t)])"
  by (simp add: cached_vector_def)

lemma split_step_Inr:
  assumes "split_step sha256 s c acc = Inr r"
  shows "fst r = fst acc @ (if is_cached sha256 s c
                            then [c\<lparr>chunk_embedding := cached_vector sha256 s c\<rparr>] else [])
       \<and> snd r = snd acc @ (if is_cached sha256 s c then [] else [c])
       \<and> (\<exists>x. chunk_text c = Some (JStr x))"
proof -
  from assms obtain x t where x: "text_of_chunk c = Inr x" and t: "type_of_chunk c = Inr t"
    and r: "(case cache_get sha256 s x (Some [(''type'', t)]) of
               None \<Rightarrow> Inr (fst acc, snd acc @ [c])
             | Some cached \<Rightarrow>
                 if cached \<noteq> [] then Inr (fst acc @ [c\<lparr>chunk_embedding := Some cached\<rparr>], snd acc)
                 else Inr (fst acc, snd acc @ [c]))
           = (Inr r :: error + chunk list \<times> chunk list)"
    unfolding split_step_def bindE_eq_Inr by blast
  note cv = cached_vector_eq[OF x t, of sha256 s]
  from x have tx: "chunk_text c = Some (JStr x)" by (simp add: text_of_chunk_Inr)
  show ?thesis
  proof (cases "cache_get sha256 s x (Some [(''type'', t)])")
    case None
    with r cv tx show ?thesis by (auto simp: is_cached_def)
  next
    case (Some cached)
    with r cv tx show ?thesis by (cases "cached = []") (auto simp: is_cached_def)
  qed
qed

lemma foldE_split_step:
  "foldE (split_step sha256 s) cs acc = Inr r \<Longrightarrow>
     fst r = fst acc @ map (\<lambda>c. c\<lparr>chunk_embedding := cached_vector sha256 s c\<rparr>)
                          (filter (is_cached sha256 s) cs)
   \<and> snd r = snd acc @ filter (\<lambda>c. \<not> is_cached sha256 s c) cs
   \<and> (\<forall>c\<in>set cs. \<exists>x. chunk_text c = Some (JStr x))"
proof (induction cs arbitrary: acc)
  case Nil
  then show ?case by simp
next
  case (Cons c cs)
  from Cons.prems obtain acc1 where
    step: "split_step sha256 s c acc = Inr acc1" and rest: "foldE (split_step sha256 s) cs acc1 = Inr r"
    by (auto split: sum.splits)
  note s1 = split_step_Inr[OF step]
  note ih = Cons.IH[OF rest]
  from s1 ih show ?case by simp
qed

lemma embed_loop_Inr:
  "i \<le> length embs \<Longrightarrow> embed_loop sha256 save embs i cs enr s = (Inr out, s') \<Longrightarrow>
     i + length cs \<le> length embs
   \<and> out = enr @ map (\<lambda>cv. (fst cv)\<lparr>chunk_embedding := Some (snd cv)\<rparr>) (zip cs (drop i embs))"
proof (induction cs arbitrary: i enr s)
  case Nil
  then show ?case by simp
next
  case (Cons c cs)
  from Cons.prems(2) have i: "i < length embs"
    by (auto split: if_splits)
  from Cons.prems(2) i obtain s1 where
    r: "embed_loop sha256 save embs (Suc i) cs (enr @ [c\<lparr>chunk_embedding := Some (embs ! i)\<rparr>]) s1
          = (Inr out, s')"
    by (auto split: if_splits sum.splits prod.splits)
  from i have "Suc i \<le> length embs" by simp
  from Cons.IH[OF this r] i show ?case
    by (simp add: Cons_nth_drop_Suc[symmetric])
qed

lemma text_of_chunk_text_str: "text_of_chunk c = Inr x \<Longrightarrow> text_str c = x"
  by (simp add: text_of_chunk_Inr text_str_def)

lemma mapE_text_of_chunk_Inr:
  "mapE text_of_chunk cs = Inr texts \<Longrightarrow> texts = map text_str cs"
proof (induction cs arbitrary: texts)
  case Nil
  then show ?case by simp
next
  case (Cons c cs)
  from Cons.prems obtain x xs where x: "text_of_chunk c = Inr x"
    and xs: "mapE text_of_chunk cs = Inr xs" and t: "texts = x # xs"
    by (auto split: sum.splits)
  from Cons.IH[OF xs] text_of_chunk_text_str[OF x] t show ?case by simp
qed

text \<open>What \<open>embed_texts\<close> returns, when it returns.\<close>

lemma embed_texts_Inr:
  assumes "embed_texts sha256 encode save chunks0 s = (Inr out, s')"
  shows "\<exists>vs. (filter (\<lambda>c. \<not> is_cached sha256 s c) (validated_chunks chunks0) = [] \<and> vs = []
              \<or> encode (map text_str (filter (\<lambda>c. \<not> is_cached sha256 s c)
                                          (validated_chunks chunks0))) = Inr vs)
          \<and> length (filter (\<lambda>c. \<not> is_cached sha256 s c) (validated_chunks chunks0)) \<le> length vs
          \<and> out = map (\<lambda>c. c\<lparr>chunk_embedding := cached_vector sha256 s c\<rparr>)
                       (filter (is_cached sha256 s) (validated_chunks chunks0))
                   @ map (\<lambda>cv. (fst cv)\<lparr>chunk_embedding := Some (snd cv)\<rparr>)
                       (zip (filter (\<lambda>c. \<not> is_cached sha256 s c) (validated_chunks chunks0)) vs)"
proof -
  let ?V = "validated_chunks chunks0"
  from assms obtain enriched to_embed where
    f: "foldE (split_step sha256 s) ?V ([], []) = Inr (enriched, to_embed)"
    by (auto simp: embed_texts_def split: sum.splits prod.splits)
  from foldE_split_step[OF f] have
    en: "enriched = map (\<lambda>c. c\<lparr>chunk_embedding := cached_vector sha256 s c\<rparr>)
                       (filter (is_cached sha256 s) ?V)"
    and te: "to_embed = filter (\<lambda>c. \<not> is_cached sha256 s c) ?V"
    by simp_all
  show ?thesis
  proof (cases "to_embed = []")
    case True
    with assms f have "out = enriched" by (simp add: embed_texts_def)
    with True en te show ?thesis by (intro exI[of _ "[]"]) simp
  next
    case False
    with assms f obtain texts vs where
      t: "mapE text_of_chunk to_embed = Inr texts" and e: "encode texts = Inr vs"
      and l: "embed_loop sha256 save vs 0 to_embed enriched s = (Inr out, s')"
      by (auto simp: embed_texts_def split: sum.splits)
    from mapE_text_of_chunk_Inr[OF t] have texts: "texts = map text_str to_embed" .
    from embed_loop_Inr[OF _ l] have
      "length to_embed \<le> length vs"
      "out = enriched @ map (\<lambda>cv. (fst cv)\<lparr>chunk_embedding := Some (snd cv)\<rparr>) (zip to_embed vs)"
      by simp_all
    with e texts en te show ?thesis by (intro exI[of _ vs]) simp
  qed
qed

lemma validated_chunks_fields:
  "c \<in> set (validated_chunks cs) \<Longrightarrow>
   chunk_id c \<noteq> None \<and> (\<exists>t. chunk_type c = Some (JStr t))
   \<and> (\<exists>c0\<in>set cs. chunk_text c = chunk_text c0 \<and> chunk_text c0 \<noteq> None)"
proof (induction cs)
  case Nil
  then show ?case by simp
next
  case (Cons c0 cs)
  then show ?case by (auto split: option.splits if_splits)
qed

lemma foldE_split_step_returns:
  "\<forall>c\<in>set cs. (\<exists>x. chunk_text c = Some (JStr x)) \<and> (\<exists>t. chunk_type c = Some (JStr t)) \<Longrightarrow>
   \<exists>r. foldE (split_step sha256 s) cs acc = Inr r"
proof (induction cs arbitrary: acc)
  case Nil
  then show ?case by simp
next
  case (Cons c cs)
  then obtain x t where "chunk_text c = Some (JStr x)" "chunk_type c = Some (JStr t)" by auto
  then have "\<exists>acc1. split_step sha256 s c acc = Inr acc1"
    by (cases "cache_get sha256 s x (Some [(''type'', t)])")
       (simp_all add: split_step_def text_of_chunk_def type_of_chunk_def)
  then obtain acc1 where "split_step sha256 s c acc = Inr acc1" by blast
  moreover from Cons.prems
  have "\<forall>c\<in>set cs. (\<exists>x. chunk_text c = Some (JStr x)) \<and> (\<exists>t. chunk_type c = Some (JStr t))"
    by simp
  from Cons.IH[OF this, of acc1] obtain r where "foldE (split_step sha256 s) cs acc1 = Inr r" by blast
  ultimately show ?case by simp
qed

lemma mapE_text_of_chunk_returns:
  "\<forall>c\<in>set cs. \<exists>x. chunk_text c = Some (JStr x) \<Longrightarrow>
   \<exists>texts. mapE text_of_chunk cs = Inr texts \<and> length texts = length cs"
  by (induction cs) (auto simp: text_of_chunk_def)

lemma embed_loop_returns:
  "\<forall>c\<in>set cs. (\<exists>x. chunk_text c = Some (JStr x)) \<and> (\<exists>t. chunk_type c = Some (JStr t)) \<Longrightarrow>
   i + length cs \<le> length embs \<Longrightarrow> \<forall>k. save k = Saved \<Longrightarrow>
   \<exists>out s'. embed_loop sha256 save embs i cs enr s = (Inr out, s')"
proof (induction cs arbitrary: i enr s)
  case Nil
  then show ?case by simp
next
  case (Cons c cs)
  then obtain x t where xt: "chunk_text c = Some (JStr x)" "chunk_type c = Some (JStr t)" by auto
  obtain s1 where add: "cache_add sha256 (save i) x (embs ! i) (Some [(''type'', t)]) s = (Inr (), s1)"
    using Cons.prems(3) by (auto simp: cache_add_def save_index_def)
  from Cons.prems
  have "\<forall>c\<in>set cs. (\<exists>x. chunk_text c = Some (JStr x)) \<and> (\<exists>t. chunk_type c = Some (JStr t))"
    and "Suc i + length cs \<le> length embs" by auto
  from Cons.IH[OF this Cons.prems(3)] obtain out s' where
    "embed_loop sha256 save embs (Suc i) cs (enr @ [c\<lparr>chunk_embedding := Some (embs ! i)\<rparr>]) s1
       = (Inr out, s')"
    by blast
  with xt add Cons.prems(2) show ?case
    by (auto simp: text_of_chunk_def type_of_chunk_def)
qed

text \<open>\<open>embed_texts\<close> returns when the text of every chunk is a string, the embedding model
  yields one vector per text and every write of the cache index succeeds.\<close>

lemma embed_texts_returns:
  assumes strs: "\<forall>c\<in>set chunks0. \<forall>v. chunk_text c = Some v \<longrightarrow> (\<exists>x. v = JStr x)"
    and enc: "\<forall>texts. \<exists>vs. encode texts = Inr vs \<and> length vs = length texts"
    and sav: "\<forall>k. save k = Saved"
  shows "\<exists>out s'. embed_texts sha256 encode save chunks0 s = (Inr out, s')"
proof -
  have v: "\<forall>c\<in>set (validated_chunks chunks0).
             (\<exists>x. chunk_text c = Some (JStr x)) \<and> (\<exists>t. chunk_type c = Some (JStr t))"
  proof
    fix c assume "c \<in> set (validated_chunks chunks0)"
    from validated_chunks_fields[OF this] obtain t c0 w where
      t: "chunk_type c = Some (JStr t)" and c0: "c0 \<in> set chunks0"
      and w: "chunk_text c = chunk_text c0" "chunk_text c0 = Some w"
      by auto
    from strs c0 w(2) obtain x where "w = JStr x" by blast
    with t w
    show "(\<exists>x. chunk_text c = Some (JStr x)) \<and> (\<exists>t. chunk_type c = Some (JStr t))"
      by simp
  qed
  from foldE_split_step_returns[OF v] obtain enriched to_embed where
    f: "foldE (split_step sha256 s) (validated_chunks chunks0) ([], []) = Inr (enriched, to_embed)"
    by (metis surj_pair)
  show ?thesis
  proof (cases "to_embed = []")
    case True
    with f show ?thesis by (simp add: embed_texts_def)
  next
    case False
    from foldE_split_step[OF f]
    have te: "to_embed = filter (\<lambda>c. \<not> is_cached sha256 s c) (validated_chunks chunks0)"
      by simp
    with v have tv: "\<forall>c\<in>set to_embed.
        (\<exists>x. chunk_text c = Some (JStr x)) \<and> (\<exists>t. chunk_type c = Some (JStr t))" by simp
    then obtain texts where t: "mapE text_of_chunk to_embed = Inr texts" "length texts = length to_embed"
      using mapE_text_of_chunk_returns[of to_embed] by auto
    from enc obtain vs where e: "encode texts = Inr vs" "length vs = length texts" by blast
    from embed_loop_returns[OF tv _ sav, of 0 vs sha256 enriched s] t e obtain out s' where
      "embed_loop sha256 save vs 0 to_embed enriched s = (Inr out, s')" by auto
    with f False t e show ?thesis by (simp add: embed_texts_def)
  qed
qed

text \<open>
  C3 (as the code has it). When \<open>embed_texts\<close> returns, its result is the validated chunks
  that hit the cache, in their input order, each with its cached vector attached, followed
  by the validated chunks that missed it, in their input order, each with the vector the
  embedding model returned at its position for the list of their texts. It does return
  whenever the text of every chunk is a string, the embedding model yields one vector per
  text and every write of the cache index succeeds.
\<close>

theorem embed_texts_cached_first:
  "(\<forall>out s'. embed_texts sha256 encode save chunks0 s = (Inr out, s') \<longrightarrow>
      (\<exists>vs. (filter (\<lambda>c. \<not> is_cached sha256 s c) (validated_chunks chunks0) = [] \<and> vs = []
              \<or> encode (map text_str (filter (\<lambda>c. \<not> is_cached sha256 s c)
                                          (validated_chunks chunks0))) = Inr vs)
          \<and> length (filter (\<lambda>c. \<not> is_cached sha256 s c) (validated_chunks chunks0)) \<le> length vs
          \<and> out = map (\<lambda>c. c\<lparr>chunk_embedding := cached_vector sha256 s c\<rparr>)
                       (filter (is_cached sha256 s) (validated_chunks chunks0))
                   @ map (\<lambda>cv. (fst cv)\<lparr>chunk_embedding := Some (snd cv)\<rparr>)
                       (zip (filter (\<lambda>c. \<not> is_cached sha256 s c) (validated_chunks chunks0)) vs)))
   \<and> ((\<forall>c\<in>set chunks0. \<forall>v. chunk_text c = Some v \<longrightarrow> (\<exists>x. v = JStr x))
        \<and> (\<forall>texts. \<exists>vs. encode texts = Inr vs \<and> length vs = length texts)
        \<and> (\<forall>k. save k = Saved) \<longrightarrow>
        (\<exists>out s'. embed_texts sha256 encode save chunks0 s = (Inr out, s')))"
proof (intro conjI allI impI)
  fix out s'
  assume "embed_texts sha256 encode save chunks0 s = (Inr out, s')"
  then show "\<exists>vs. (filter (\<lambda>c. \<not> is_cached sha256 s c) (validated_chunks chunks0) = [] \<and> vs = []
              \<or> encode (map text_str (filter (\<lambda>c. \<not> is_cached sha256 s c)
                                          (validated_chunks chunks0))) = Inr vs)
          \<and> length (filter (\<lambda>c. \<not> is_cached sha256 s c) (validated_chunks chunks0)) \<le> length vs
          \<and> out = map (\<lambda>c. c\<lparr>chunk_embedding := cached_vector sha256 s c\<rparr>)
                       (filter (is_cached sha256 s) (validated_chunks chunks0))
                   @ map (\<lambda>cv. (fst cv)\<lparr>chunk_embedding := Some (snd cv)\<rparr>)
                       (zip (filter (\<lambda>c. \<not> is_cached sha256 s c) (validated_chunks chunks0)) vs)"
    by (rule embed_texts_Inr)
next
  assume "(\<forall>c\<in>set chunks0. \<forall>v. chunk_text c = Some v \<longrightarrow> (\<exists>x. v = JStr x))
        \<and> (\<forall>texts. \<exists>vs. encode texts = Inr vs \<and> length vs = length texts)
        \<and> (\<forall>k. save k = Saved)"
  then show "\<exists>out s'. embed_texts sha256 encode save chunks0 s = (Inr out, s')"
    using embed_texts_returns[of chunks0 encode save sha256 s] by simp
qed

theorem embed_texts_cached_first_witness:
  "fst (embed_texts example_sha256 example_encode example_save [chunk_a, chunk_b] example_cache)
     = Inr [chunk_b\<lparr>chunk_embedding := Some [1, 0]\<rparr>, chunk_a\<lparr>chunk_embedding := Some [5]\<rparr>]"
proof -
  have conds:
    "(\<forall>c\<in>set [chunk_a, chunk_b]. \<forall>v. chunk_text c = Some v \<longrightarrow> (\<exists>x. v = JStr x))
     \<and> (\<forall>texts. \<exists>vs. example_encode texts = Inr vs \<and> length vs = length texts)
     \<and> (\<forall>k. example_save k = Saved)"
    by (simp add: example_encode_def example_save_def chunk_a_def chunk_b_def)
  note t = embed_texts_cached_first
         [of example_sha256 example_encode example_save "[chunk_a, chunk_b]" example_cache]
  from t conds obtain out s' where
    r: "embed_texts example_sha256 example_encode example_save [chunk_a, chunk_b] example_cache
          = (Inr out, s')"
    by blast
  have hits: "filter (is_cached example_sha256 example_cache) (validated_chunks [chunk_a, chunk_b])
              = [chunk_b]"
    by code_simp
  have misses: "filter (\<lambda>c. \<not> is_cached example_sha256 example_cache c)
                  (validated_chunks [chunk_a, chunk_b]) = [chunk_a]"
    by code_simp
  have cv: "cached_vector example_sha256 example_cache chunk_b = Some [1, 0]"
    by (simp add: cached_vector_def text_of_chunk_def type_of_chunk_def chunk_b_def
        example_cache_def cache_add_def save_index_def cache_get_def)
  have enc: "example_encode (map text_str [chunk_a]) = Inr [[5]]"
    by (simp add: example_encode_def text_str_def chunk_a_def)
  from t r obtain vs where
    "([chunk_a] = [] \<and> vs = [] \<or> example_encode (map text_str [chunk_a]) = Inr vs)"
    and "out = map (\<lambda>c. c\<lparr>chunk_embedding := cached_vector example_sha256 example_cache c\<rparr>) [chunk_b]
             @ map (\<lambda>cv. (fst cv)\<lparr>chunk_embedding := Some (snd cv)\<rparr>) (zip [chunk_a] vs)"
    unfolding hits misses by blast
  with enc cv have "out = [chunk_b\<lparr>chunk_embedding := Some [1, 0]\<rparr>, chunk_a\<lparr>chunk_embedding := Some [5]\<rparr>]"
    by auto
  with r show ?thesis by simp
qed

text \<open>
  The order of the input is not kept: with \<open>chunk_a\<close> (not cached) before \<open>chunk_b\<close>
  (cached), the result lists \<open>chunk_b\<close> first.
\<close>

theorem embed_texts_order_counterexample:
  "map chunk_id
     (case fst (embed_texts example_sha256 example_encode example_save [chunk_a, chunk_b]
                  example_cache) of
        Inr out \<Rightarrow> out
      | Inl e \<Rightarrow> [])
   = [Some (JStr ''b''), Some (JStr ''a'')]
   \<and> map chunk_id [chunk_a, chunk_b] = [Some (JStr ''a''), Some (JStr ''b'')]"
  by code_simp

text \<open>
  C9. A chunk whose type is not the value of any \<open>ChunkType\<close> member is not always coerced
  to \<open>ChunkType.TEXT\<close>: \<open>ChunkType.values()\<close> lists the qualified names of the members, not
  their values, so the type \<open>ChunkType.SWAGGER\<close>, which no member has as its value, counts
  as known and \<open>embed_texts\<close> returns the chunk with that type.
\<close>

theorem embed_texts_qualified_name_kept:
  "map chunk_type
     (case fst (embed_texts example_sha256 example_encode example_save [chunk_q] example_cache) of
        Inr out \<Rightarrow> out
      | Inl e \<Rightarrow> [])
   = [Some (JStr ''ChunkType.SWAGGER'')]
   \<and> ''ChunkType.SWAGGER'' \<notin> set (map ChunkType_value ChunkType_members)"
  by code_simp

section \<open>EmbeddingCache: the fingerprint incorporates the metadata\<close>

text \<open>The escaping of \<open>json.dumps\<close> is a prefix code, hence injective on strings.\<close>

lemma hex_digit_inj:
  "d < 16 \<Longrightarrow> e < 16 \<Longrightarrow> hex_digit d = hex_digit e \<Longrightarrow> d = e"
  by (auto simp: hex_digit_def char_of_eq_iff take_bit_eq_mod split: if_splits)

lemma div_mod_16_eq:
  "(n::nat) div 16 = m div 16 \<Longrightarrow> n mod 16 = m mod 16 \<Longrightarrow> n = m"
  by (metis div_mult_mod_eq)

lemma hex_pair_inj:
  assumes "hex_digit (of_char a div 16) = hex_digit (of_char b div 16)"
    and "hex_digit (of_char a mod 16) = hex_digit (of_char b mod 16)"
  shows "a = b"
proof -
  have la: "(of_char a :: nat) < 256" and lb: "(of_char b :: nat) < 256" by simp_all
  then have d: "(of_char a :: nat) div 16 < 16" "(of_char b :: nat) div 16 < 16" by arith+
  have 1: "(of_char a :: nat) div 16 = of_char b div 16"
    using hex_digit_inj[OF d] assms(1) by blast
  have m: "(of_char a :: nat) mod 16 < 16" "(of_char b :: nat) mod 16 < 16" by simp_all
  have 2: "(of_char a :: nat) mod 16 = of_char b mod 16"
    using hex_digit_inj[OF m] assms(2) by blast
  from div_mod_16_eq[OF 1 2] show ?thesis by simp
qed

lemma esc_char_not_Nil: "esc_char c \<noteq> []"
  by (simp add: esc_char_def Let_def)

lemma esc_char_cases:
  "esc_char c = [c] \<and> c \<noteq> CHR 0x5C \<and> c \<noteq> CHR 0x22
   \<or> (\<exists>x. esc_char c = [CHR 0x5C, x] \<and> x \<noteq> CHR ''u'')
   \<or> esc_char c = [CHR 0x5C, CHR ''u'', CHR ''0'', CHR ''0'',
                    hex_digit (of_char c div 16), hex_digit (of_char c mod 16)]"
  by (auto simp: esc_char_def Let_def)

lemma esc_char_short_code:
  "esc_char a = [CHR 0x5C, x] \<Longrightarrow>
   (of_char a :: nat) =
     (if x = CHR 0x22 then 34 else if x = CHR 0x5C then 92 else if x = CHR ''n'' then 10
      else if x = CHR ''r'' then 13 else if x = CHR ''t'' then 9 else if x = CHR ''b'' then 8
      else 12)"
  by (auto simp: esc_char_def Let_def split: if_splits)

lemma esc_char_short_inj:
  assumes "esc_char a = [CHR 0x5C, x]" "esc_char b = [CHR 0x5C, x]"
  shows "a = b"
proof -
  have "(of_char a :: nat) = of_char b"
    using esc_char_short_code[OF assms(1)] esc_char_short_code[OF assms(2)] by simp
  then show ?thesis by simp
qed

lemma esc_char_prefix:
  assumes "esc_char a @ u = esc_char b @ v"
  shows "a = b"
proof -
  let ?long = "\<lambda>c. [CHR 0x5C, CHR ''u'', CHR ''0'', CHR ''0'',
                     hex_digit (of_char c div 16), hex_digit (of_char c mod 16)]"
  consider (p) "esc_char a = [a]" "a \<noteq> CHR 0x5C"
    | (s) x where "esc_char a = [CHR 0x5C, x]" "x \<noteq> CHR ''u''"
    | (l) "esc_char a = ?long a"
    using esc_char_cases[of a] by blast
  then show ?thesis
  proof cases
    case p
    consider (p') "esc_char b = [b]" "b \<noteq> CHR 0x5C"
      | (s') y where "esc_char b = [CHR 0x5C, y]" "y \<noteq> CHR ''u''"
      | (l') "esc_char b = ?long b"
      using esc_char_cases[of b] by blast
    then show ?thesis using p assms by cases simp_all
  next
    case s
    consider (p') "esc_char b = [b]" "b \<noteq> CHR 0x5C"
      | (s') y where "esc_char b = [CHR 0x5C, y]" "y \<noteq> CHR ''u''"
      | (l') "esc_char b = ?long b"
      using esc_char_cases[of b] by blast
    then show ?thesis
    proof cases
      case p'
      with s assms show ?thesis by simp
    next
      case s'
      with s assms have "y = x" by simp
      with s s' show ?thesis using esc_char_short_inj by blast
    next
      case l'
      with s assms show ?thesis by simp
    qed
  next
    case l
    consider (p') "esc_char b = [b]" "b \<noteq> CHR 0x5C"
      | (s') y where "esc_char b = [CHR 0x5C, y]" "y \<noteq> CHR ''u''"
      | (l') "esc_char b = ?long b"
      using esc_char_cases[of b] by blast
    then show ?thesis
    proof cases
      case p'
      with l assms show ?thesis by simp
    next
      case s'
      with l assms show ?thesis by simp
    next
      case l'
      with l assms have "hex_digit (of_char a div 16) = hex_digit (of_char b div 16)"
        and "hex_digit (of_char a mod 16) = hex_digit (of_char b mod 16)" by simp_all
      then show ?thesis by (rule hex_pair_inj)
    qed
  qed
qed

lemma concat_esc_inj:
  "concat (map esc_char s) = concat (map esc_char t) \<Longrightarrow> s = t"
proof (induction s arbitrary: t)
  case Nil
  then show ?case by (cases t) (simp_all add: esc_char_not_Nil)
next
  case (Cons a s)
  show ?case
  proof (cases t)
    case Nil
    with Cons.prems show ?thesis by (simp add: esc_char_not_Nil)
  next
    case (Cons b t')
    with Cons.prems have e: "esc_char a @ concat (map esc_char s) = esc_char b @ concat (map esc_char t')"
      by simp
    then have "a = b" by (rule esc_char_prefix)
    with e have "concat (map esc_char s) = concat (map esc_char t')" by simp
    with Cons.IH \<open>a = b\<close> Cons show ?thesis by simp
  qed
qed

lemma json_string_inj: "json_string s = json_string t \<Longrightarrow> s = t"
  by (simp add: json_string_def concat_esc_inj)














section \<open>SwaggerChunker: extraction\<close>

lemma mapE_Inr: "mapE f xs = Inr ys \<Longrightarrow> list_all2 (\<lambda>x y. f x = Inr y) xs ys"
  by (induction xs arbitrary: ys) (auto split: sum.splits)

lemma resolve_ref_cong: "swagger a = swagger b \<Longrightarrow> resolve_ref a = resolve_ref b"
  by (rule ext) (simp add: resolve_ref_def)

lemma resolve_ref_value_cong:
  "swagger a = swagger b \<Longrightarrow> resolve_ref_value a = resolve_ref_value b"
  using resolve_ref_cong[of a b]
  by - (rule ext, simp add: resolve_ref_value_def cong: json.case_cong)

lemma deref_cong: "swagger a = swagger b \<Longrightarrow> deref a = deref b"
  using resolve_ref_value_cong[of a b]
  by - (rule ext, simp add: deref_def cong: if_cong)

lemma param_entry_cong: "swagger a = swagger b \<Longrightarrow> param_entry a = param_entry b"
  using deref_cong[of a b] by - (rule ext, simp add: param_entry_def)

lemma extract_parameters_cong:
  "swagger a = swagger b \<Longrightarrow> extract_parameters a = extract_parameters b"
  using param_entry_cong[of a b] by - (rule ext, simp add: extract_parameters_def)

lemma request_body_loop_cong:
  assumes "swagger a = swagger b"
  shows "request_body_loop a = request_body_loop b"
proof
  fix items
  show "request_body_loop a items = request_body_loop b items"
    using deref_cong[OF assms] by (induction items) (auto split: sum.splits)
qed

lemma extract_request_body_cong:
  "swagger a = swagger b \<Longrightarrow> extract_request_body a = extract_request_body b"
  using request_body_loop_cong[of a b] by - (rule ext, simp add: extract_request_body_def)

lemma response_media_cong: "swagger a = swagger b \<Longrightarrow> response_media a = response_media b"
  using deref_cong[of a b] by - (rule ext, simp add: fun_eq_iff response_media_def)

lemma response_status_cong: "swagger a = swagger b \<Longrightarrow> response_status a = response_status b"
  using response_media_cong[of a b] by - (rule ext, rule ext, simp add: response_status_def)

lemma extract_responses_cong:
  "swagger a = swagger b \<Longrightarrow> extract_responses a = extract_responses b"
  using response_status_cong[of a b] by - (rule ext, simp add: extract_responses_def)

lemma extract_security_cong:
  "global_security a = global_security b \<Longrightarrow> extract_security a = extract_security b"
  by (rule ext) (simp add: extract_security_def)

lemma base_text_of_cong:
  assumes "swagger a = swagger b" "global_security a = global_security b"
  shows "base_text_of repr a = base_text_of repr b"
  using extract_parameters_cong[OF assms(1)] extract_request_body_cong[OF assms(1)]
    extract_responses_cong[OF assms(1)] extract_security_cong[OF assms(2)]
  by - (rule ext, simp add: base_text_of_def)

lemma extract_endpoints_cong:
  "swagger a = swagger b \<Longrightarrow> extract_endpoints a = extract_endpoints b"
  by (simp add: extract_endpoints_def)

text \<open>The chunk of one operation, read off the loop body.\<close>

lemma base_text_of_Inr_operation_id:
  "base_text_of repr self (method, path, operation) = Inr bt \<Longrightarrow>
   \<exists>oid. operation_id_of method path operation = Inr oid"
  by (auto simp: base_text_of_def bindE_eq_Inr)

lemma base_text_of_Inl_operation_id:
  "operation_id_of method path operation = Inl e \<Longrightarrow>
   base_text_of repr self (method, path, operation) = Inl e"
  by (simp add: base_text_of_def)

lemma build_chunk_Inr:
  assumes "build_chunk repr sha256 self (method, path, operation) = Inr c"
  shows "\<exists>bt oid. base_text_of repr self (method, path, operation) = Inr bt
           \<and> operation_id_of method path operation = Inr oid
           \<and> c = \<lparr> chunk_id = Some (JStr (take 16 (sha256 bt))),
                   chunk_type = Some (JStr ''swagger''),
                   chunk_text = Some (JStr (py_strip bt)),
                   chunk_metadata = Some (base_metadata self SWAGGER
                      @ [(''method'', JStr method), (''path'', JStr path), (''operation_id'', oid)]),
                   chunk_embedding = None \<rparr>"
  using assms by (auto simp: build_chunk_def bindE_eq_Inr generate_chunk_id_def)

lemma build_chunk_Inl:
  "build_chunk repr sha256 self ep = Inl e \<longleftrightarrow> base_text_of repr self ep = Inl e"
proof (cases ep)
  case (fields meth pth operation)
  show ?thesis
  proof (cases "operation_id_of meth pth operation")
    case (Inl e')
    then show ?thesis
      using fields base_text_of_Inl_operation_id[OF Inl, of repr self]
      by (simp add: build_chunk_def)
  next
    case (Inr oid)
    then show ?thesis using fields
      by (cases "base_text_of repr self (meth, pth, operation)") (simp_all add: build_chunk_def)
  qed
qed

lemma build_chunk_chunks [simp]:
  "build_chunk repr sha256 (self\<lparr>chunks := cs\<rparr>) = build_chunk repr sha256 self"
  using base_text_of_cong[of "self\<lparr>chunks := cs\<rparr>" self repr]
  by - (rule ext, simp add: build_chunk_def base_metadata_def)

lemma extract_endpoints_chunks [simp]:
  "extract_endpoints (self\<lparr>chunks := cs\<rparr>) = extract_endpoints self"
  by (simp add: extract_endpoints_def)

lemma extract_loop_fst:
  "fst (extract_loop repr sha256 self eps)
     = (case mapE (build_chunk repr sha256 self) eps of
          Inl e \<Rightarrow> Inl e
        | Inr cs \<Rightarrow> Inr (chunks self @ cs))"
  by (induction eps arbitrary: self) (auto split: sum.splits)

lemma extract_loop_snd:
  "extract_loop repr sha256 self eps = (Inr out, self') \<Longrightarrow> self' = self\<lparr>chunks := out\<rparr>"
proof (induction eps arbitrary: self)
  case Nil
  then show ?case by (cases self) auto
next
  case (Cons ep eps)
  from Cons.prems obtain c where
    "extract_loop repr sha256 (self\<lparr>chunks := chunks self @ [c]\<rparr>) eps = (Inr out, self')"
    by (auto split: sum.splits)
  from Cons.IH[OF this] show ?case by simp
qed

lemma SwaggerChunker_init_Inr:
  "SwaggerChunker_init doc file = Inr self \<Longrightarrow>
   swagger self = doc \<and> chunks self = [] \<and> source_file self = path_name file
   \<and> py_get_default doc ''security'' (JList []) = Inr (global_security self)"
  by (auto simp: SwaggerChunker_init_def bindE_eq_Inr)

lemma extract_chunks_fresh:
  "chunks self = [] \<Longrightarrow>
   fst (extract_chunks repr sha256 self)
     = bindE (extract_endpoints self) (mapE (build_chunk repr sha256 self))"
  by (cases "extract_endpoints self")
     (auto simp: extract_chunks_def extract_loop_fst split: sum.splits)

text \<open>Two chunkers that agree on the composite texts produce, operation by operation,
  the same text and id, or stop with the same exception.\<close>

lemma mapE_build_chunk_agree:
  assumes "base_text_of repr a = base_text_of repr b"
  shows "(case mapE (build_chunk repr sha256 a) eps of
            Inl e \<Rightarrow> mapE (build_chunk repr sha256 b) eps = Inl e
          | Inr xs \<Rightarrow> (\<exists>ys. mapE (build_chunk repr sha256 b) eps = Inr ys
                          \<and> map chunk_text ys = map chunk_text xs
                          \<and> map chunk_id ys = map chunk_id xs))"
proof (induction eps)
  case Nil
  show ?case by simp
next
  case (Cons ep eps)
  obtain meth pth operation where ep: "ep = (meth, pth, operation)" by (cases ep)
  show ?case
  proof (cases "build_chunk repr sha256 a ep")
    case (Inl e)
    then have "build_chunk repr sha256 b ep = Inl e"
      using assms by (simp add: build_chunk_Inl)
    with Inl show ?thesis by simp
  next
    case (Inr c)
    from build_chunk_Inr[OF Inr[unfolded ep]] obtain bt oid where
      bt: "base_text_of repr a (meth, pth, operation) = Inr bt"
      and oid: "operation_id_of meth pth operation = Inr oid"
      and c: "chunk_text c = Some (JStr (py_strip bt))" "chunk_id c = Some (JStr (take 16 (sha256 bt)))"
      by auto
    from bt assms have "base_text_of repr b (meth, pth, operation) = Inr bt" by simp
    with oid obtain d where d: "build_chunk repr sha256 b ep = Inr d"
      "chunk_text d = Some (JStr (py_strip bt))" "chunk_id d = Some (JStr (take 16 (sha256 bt)))"
      by (simp add: build_chunk_def ep generate_chunk_id_def)
    show ?thesis
      using Cons.IH Inr d c by (auto split: sum.splits)
  qed
qed


text \<open>A second call on the same chunker derives the same chunks again and appends them to
  \<open>self.chunks\<close>, which is the list it returns.\<close>

lemma extract_chunks_second_call:
  assumes "chunks self = []" and "extract_chunks repr sha256 self = (Inr out, self')"
  shows "fst (extract_chunks repr sha256 self') = Inr (out @ out)"
proof -
  from assms(2) obtain eps where eps: "extract_endpoints self = Inr eps"
    and loop: "extract_loop repr sha256 self eps = (Inr out, self')"
    by (auto simp: extract_chunks_def split: sum.splits)
  from extract_loop_snd[OF loop] have s': "self' = self\<lparr>chunks := out\<rparr>" .
  from loop have "fst (extract_loop repr sha256 self eps) = Inr out" by simp
  then have m: "mapE (build_chunk repr sha256 self) eps = Inr out"
    using assms(1) by (auto simp: extract_loop_fst split: sum.splits)
  show ?thesis
    using eps m by (simp add: s' extract_chunks_def extract_loop_fst)
qed

text \<open>Two chunkers constructed for the same document, under any source file names, stop
  with the same exception or return chunks with the same texts and ids.\<close>

lemma extract_chunks_fresh_agree:
  assumes "SwaggerChunker_init doc file1 = Inr a" and "SwaggerChunker_init doc file2 = Inr b"
  shows "(case fst (extract_chunks repr sha256 a) of
            Inl e \<Rightarrow> fst (extract_chunks repr sha256 b) = Inl e
          | Inr xs \<Rightarrow>
              (\<exists>ys eps. fst (extract_chunks repr sha256 b) = Inr ys
                 \<and> map chunk_text ys = map chunk_text xs
                 \<and> map chunk_id ys = map chunk_id xs
                 \<and> extract_endpoints a = Inr eps
                 \<and> list_all2 (\<lambda>ep c. \<exists>bt. base_text_of repr a ep = Inr bt
                                 \<and> chunk_text c = Some (JStr (py_strip bt))
                                 \<and> chunk_id c = Some (JStr (take 16 (sha256 bt)))) eps xs))"
proof -
  note ia = SwaggerChunker_init_Inr[OF assms(1)] and ib = SwaggerChunker_init_Inr[OF assms(2)]
  from ia ib have sw: "swagger a = swagger b" and gs: "global_security a = global_security b"
    by auto
  have bt: "base_text_of repr a = base_text_of repr b" using sw gs by (rule base_text_of_cong)
  have ep: "extract_endpoints a = extract_endpoints b" using sw by (rule extract_endpoints_cong)
  have fa: "fst (extract_chunks repr sha256 a)
              = bindE (extract_endpoints a) (mapE (build_chunk repr sha256 a))"
    using ia by (simp add: extract_chunks_fresh)
  have fb: "fst (extract_chunks repr sha256 b)
              = bindE (extract_endpoints a) (mapE (build_chunk repr sha256 b))"
    using ib ep by (simp add: extract_chunks_fresh)
  show ?thesis
  proof (cases "extract_endpoints a")
    case (Inl e)
    then show ?thesis by (simp add: fa fb)
  next
    case (Inr eps)
    note agree = mapE_build_chunk_agree[OF bt, of sha256 eps]
    show ?thesis
    proof (cases "mapE (build_chunk repr sha256 a) eps")
      case (Inl e)
      with agree Inr show ?thesis by (simp add: fa fb)
    next
      case m: (Inr xs)
      from agree m obtain ys where ys: "mapE (build_chunk repr sha256 b) eps = Inr ys"
        "map chunk_text ys = map chunk_text xs" "map chunk_id ys = map chunk_id xs"
        by auto
      have "list_all2 (\<lambda>ep c. build_chunk repr sha256 a ep = Inr c) eps xs"
        using m by (rule mapE_Inr)
      then have "list_all2 (\<lambda>ep c. \<exists>bt. base_text_of repr a ep = Inr bt
                                 \<and> chunk_text c = Some (JStr (py_strip bt))
                                 \<and> chunk_id c = Some (JStr (take 16 (sha256 bt)))) eps xs"
      proof (rule list_all2_mono)
        fix ep c
        assume bc: "build_chunk repr sha256 a ep = Inr c"
        obtain meth pth operation where e: "ep = (meth, pth, operation)" by (cases ep)
        from build_chunk_Inr[OF bc[unfolded e]] e
        show "\<exists>bt. base_text_of repr a ep = Inr bt
                 \<and> chunk_text c = Some (JStr (py_strip bt))
                 \<and> chunk_id c = Some (JStr (take 16 (sha256 bt)))"
          by auto
      qed
      with ys m Inr show ?thesis by (simp add: fa fb)
    qed
  qed
qed

text \<open>
  C1. Extracting twice from the same unchanged document does not always yield identical
  sequences: \<open>self.chunks\<close> is never reset, so on the chunker of \<open>users_doc\<close> the first
  call of \<open>extract_chunks\<close> returns one chunk and the second call returns two, the chunk of
  the first call and the same chunk again.
\<close>

theorem extract_chunks_second_call_doubles:
  "(case users_chunks of Inr cs \<Rightarrow> length cs | Inl e \<Rightarrow> 0) = 1
   \<and> (case users_chunks_second_call of Inr cs \<Rightarrow> length cs | Inl e \<Rightarrow> 0) = 2
   \<and> (case users_chunks_second_call of Inr cs \<Rightarrow> map chunk_id cs | Inl e \<Rightarrow> [])
       = (case users_chunks of Inr cs \<Rightarrow> map chunk_id cs @ map chunk_id cs | Inl e \<Rightarrow> [])"
  by code_simp

text \<open>
  C2 (as the code has it). When \<open>extract_chunks\<close> on a newly constructed chunker returns,
  it returns exactly one chunk per enumerated operation, in enumeration order; the chunk's
  type is \<open>ChunkType.SWAGGER\<close>, that is \<open>swagger\<close>, and its metadata carries the
  lower-cased method, the path and the operation id: the value under \<open>operationId\<close>, or
  method, underscore and the path with every slash replaced by an underscore when the
  operation has no such key.
\<close>

theorem extract_chunks_one_chunk_per_operation:
  assumes "SwaggerChunker_init doc file = Inr self"
    and "extract_endpoints self = Inr eps"
    and "fst (extract_chunks repr sha256 self) = Inr cs"
  shows "list_all2
           (\<lambda>ep c. chunk_type c = Some (JStr ''swagger'')
              \<and> (\<exists>md kvs. chunk_metadata c = Some md \<and> snd (snd ep) = JDict kvs
                    \<and> map_of md ''method'' = Some (JStr (fst ep))
                    \<and> map_of md ''path'' = Some (JStr (fst (snd ep)))
                    \<and> map_of md ''operation_id''
                        = Some (case map_of kvs ''operationId'' of
                                  Some v \<Rightarrow> v
                                | None \<Rightarrow> JStr (fst ep @ ''_''
                                            @ py_replace (CHR ''/'') (CHR ''_'') (fst (snd ep))))))
           eps cs"
proof -
  note i = SwaggerChunker_init_Inr[OF assms(1)]
  from assms(2,3) i have "mapE (build_chunk repr sha256 self) eps = Inr cs"
    by (simp add: extract_chunks_fresh)
  then have "list_all2 (\<lambda>ep c. build_chunk repr sha256 self ep = Inr c) eps cs"
    by (rule mapE_Inr)
  then show ?thesis
  proof (rule list_all2_mono)
    fix ep c
    assume bc: "build_chunk repr sha256 self ep = Inr c"
    obtain meth pth operation where e: "ep = (meth, pth, operation)" by (cases ep)
    from build_chunk_Inr[OF bc[unfolded e]] obtain bt oid where
      oid: "operation_id_of meth pth operation = Inr oid"
      and c: "chunk_type c = Some (JStr ''swagger'')"
        "chunk_metadata c = Some (base_metadata self SWAGGER
            @ [(''method'', JStr meth), (''path'', JStr pth), (''operation_id'', oid)])"
      by auto
    from oid obtain kvs where kvs: "operation = JDict kvs"
      and o: "oid = (case map_of kvs ''operationId'' of
                      Some v \<Rightarrow> v
                    | None \<Rightarrow> JStr (meth @ ''_'' @ py_replace (CHR ''/'') (CHR ''_'') pth))"
      by (cases operation) (auto simp: operation_id_of_def py_get_default_def split: option.splits)
    show "chunk_type c = Some (JStr ''swagger'')
              \<and> (\<exists>md kvs. chunk_metadata c = Some md \<and> snd (snd ep) = JDict kvs
                    \<and> map_of md ''method'' = Some (JStr (fst ep))
                    \<and> map_of md ''path'' = Some (JStr (fst (snd ep)))
                    \<and> map_of md ''operation_id''
                        = Some (case map_of kvs ''operationId'' of
                                  Some v \<Rightarrow> v
                                | None \<Rightarrow> JStr (fst ep @ ''_''
                                            @ py_replace (CHR ''/'') (CHR ''_'') (fst (snd ep)))))"
      using c kvs o e
      by (simp add: base_metadata_def METADATA_FIELD_TYPE_def METADATA_FIELD_ORIGIN_def
          METADATA_FIELD_FILENAME_def split: option.splits)
  qed
qed

theorem extract_chunks_one_chunk_per_operation_witness:
  "(case users_chunks of
      Inl e \<Rightarrow> False
    | Inr cs \<Rightarrow>
        length cs = 1
        \<and> (\<forall>c\<in>set cs. chunk_type c = Some (JStr ''swagger'')
              \<and> (\<exists>md. chunk_metadata c = Some md
                    \<and> map_of md ''method'' = Some (JStr ''get'')
                    \<and> map_of md ''path'' = Some (JStr ''/users/{id}'')
                    \<and> map_of md ''operation_id'' = Some (JStr ''get__users_{id}''))))"
proof -
  obtain a where a: "SwaggerChunker_init users_doc ''specs/users.yaml'' = Inr a"
    by (simp add: SwaggerChunker_init_def users_doc_def py_get_default_def)
  have ua: "users_chunks = fst (extract_chunks example_repr example_sha256 a)"
    by (simp add: users_chunks_def a)
  have "(case users_chunks of Inl e \<Rightarrow> False | Inr xs \<Rightarrow> True)"
    by code_simp
  then obtain cs where cs: "fst (extract_chunks example_repr example_sha256 a) = Inr cs"
    unfolding ua by (cases "fst (extract_chunks example_repr example_sha256 a)") simp_all
  have "(case bindE (SwaggerChunker_init users_doc ''specs/users.yaml'') extract_endpoints of
           Inl e \<Rightarrow> False
         | Inr eps \<Rightarrow> map (\<lambda>ep. (fst ep, fst (snd ep))) eps = [(''get'', ''/users/{id}'')]
                      \<and> (\<forall>ep\<in>set eps. case snd (snd ep) of
                             JDict kvs \<Rightarrow> map_of kvs ''operationId'' = None
                           | _ \<Rightarrow> False))"
    by code_simp
  then obtain op where eps: "extract_endpoints a = Inr [(''get'', ''/users/{id}'', op)]"
    and op: "case op of JDict kvs \<Rightarrow> map_of kvs ''operationId'' = None | _ \<Rightarrow> False"
    by (cases "extract_endpoints a") (auto simp: a)
  from extract_chunks_one_chunk_per_operation[OF a eps cs] op
  show ?thesis
    by (auto simp: ua cs list_all2_Cons1 py_replace_def split: json.splits)
qed

text \<open>The type of the chunk of an operation is \<open>swagger\<close>, not \<open>operation\<close>.\<close>

theorem extract_chunks_type_counterexample:
  "(case users_chunks of Inr cs \<Rightarrow> map chunk_type cs | Inl e \<Rightarrow> []) = [Some (JStr ''swagger'')]
   \<and> Some (JStr ''swagger'') \<noteq> Some (JStr ''operation'')"
  by code_simp

end
